theory Spec2Isabelle
  imports Complex_Main
begin

section \<open>Values, errors and printed notices\<close>

text \<open>
  The arrays of \<^verbatim>\<open>mfdfa.pyx\<close> hold C doubles. A double is a finite number, one of the
  two infinities, or NaN. The finite ones are modelled by \<open>real\<close>: every double is
  some real number, so what is proved for all reals holds for all doubles. Rounding is
  never computed here: the arithmetic of doubles is a parameter of the model
  (\<open>numerics\<close> below), and the theorems hold for every arithmetic.
\<close>

datatype float64 = Finite real | PosInf | NegInf | NaN

fun isnan :: "float64 \<Rightarrow> bool" where
  "isnan NaN = True"
| "isnan _ = False"

fun isfinite :: "float64 \<Rightarrow> bool" where
  "isfinite (Finite _) = True"
| "isfinite _ = False"

text \<open>
  Every \<^verbatim>\<open>raise ValueError(...)\<close> of the source has a constructor of its own, named
  after the message. The two messages built with \<^verbatim>\<open>format\<close> carry the numbers
  that are formatted into them. The last two are raised by the libraries the source calls: numpy when two
  array shapes cannot be broadcast, Python's \<^verbatim>\<open>int()\<close> on a NaN.
\<close>

datatype value_error =
    PolOrdBelowOne            \<comment> \<open>line 115: Polynomial order must be greater than 0.\<close>
  | StepBelowOne              \<comment> \<open>line 117: Step for scales must be greater than 0.\<close>
  | ScaleBelowThree           \<comment> \<open>line 121: Variable nMin and nMax must be at least equal to 3.\<close>
  | NMaxNotAboveNMin          \<comment> \<open>line 123: Variable nMax must be greater than variable nMin.\<close>
  | NMaxAboveLength           \<comment> \<open>line 125: Variable nMax must be less than the input vector length.\<close>
  | NMinBelowPolOrd int       \<comment> \<open>line 127: Variable nMin must be at least equal to (polOrd + 2).\<close>
  | NEndBelowNStart           \<comment> \<open>line 174: Variable nEnd must be greater than variable nStart.\<close>
  | FitLimitsOutside int int  \<comment> \<open>line 176: Fit limits must be included in interval [n[0], n[-1]].\<close>
  | FitLimitsNotInN           \<comment> \<open>line 178: Fit limits must be included in the n vector.\<close>
  | TooFewQ                   \<comment> \<open>line 241: Number of q moments must be greater than one ...\<close>
  | CannotBroadcast           \<comment> \<open>numpy: operands could not be broadcast together\<close>
  | NanToInteger              \<comment> \<open>Python: cannot convert float NaN to integer\<close>

datatype error =
    ValueError value_error
  | TypeError                 \<comment> \<open>an operation on \<^verbatim>\<open>None\<close>\<close>
  | NameError string          \<comment> \<open>a name that is bound nowhere\<close>
  | IndexError                \<comment> \<open>an index outside an array\<close>
  | OverflowError             \<comment> \<open>a Python integer that does not fit a C \<^verbatim>\<open>int\<close>, or \<^verbatim>\<open>int(inf)\<close>\<close>
  | LinAlgError               \<comment> \<open>raised inside \<^verbatim>\<open>np.polyfit\<close>\<close>
  | CIntOverflow              \<comment> \<open>signed overflow of a C \<^verbatim>\<open>int\<close> expression: undefined in C\<close>

text \<open>What the methods print on standard output.\<close>

datatype notice =
    NothingToFit                       \<comment> \<open>lines 197, 217, 243\<close>
  | FitLimits int int                  \<comment> \<open>line 186\<close>
  | FitResult float64 float64 float64  \<comment> \<open>line 193: q, intercept, slope\<close>

text \<open>
  The argument \<^verbatim>\<open>qList\<close> of \<^verbatim>\<open>computeFlucVec\<close> is an untyped Python object. The
  model distinguishes the objects the \<^verbatim>\<open>isinstance\<close> tests of lines 129 and 131
  tell apart: a float, a list of numbers, a numpy array of numbers, and objects of other
  types, of which an integer, a tuple of numbers and \<^verbatim>\<open>None\<close> are represented.
\<close>

datatype qarg =
    QFloat float64
  | QList "float64 list"
  | QNdarray "float64 list"
  | QInt int
  | QTuple "float64 list"
  | QNone

text \<open>
  The numerical routines the source calls and that are not part of \<^verbatim>\<open>mfdfa.pyx\<close>:
  the arithmetic of doubles, the logarithm, the constant \<^verbatim>\<open>np.e\<close>, the rounding of a
  double to a C \<^verbatim>\<open>float\<close> (the type of the argument \<^verbatim>\<open>logBase\<close>),
  \<^verbatim>\<open>np.polyfit\<close> at degree 1 (which returns the pair slope, intercept, or raises),
  and the two C routines declared from \<^verbatim>\<open>cLoops.h\<close> (lines 24 to 26), whose code is
  not in the repository's sources.
\<close>

record numerics =
  fmul :: "float64 \<Rightarrow> float64 \<Rightarrow> float64"
  fsub :: "float64 \<Rightarrow> float64 \<Rightarrow> float64"
  fdiv :: "float64 \<Rightarrow> float64 \<Rightarrow> float64"
  flog :: "float64 \<Rightarrow> float64"
  np_e :: float64
  c_float :: "float64 \<Rightarrow> float64"
  polyfit :: "float64 list \<Rightarrow> float64 list \<Rightarrow> error + float64 \<times> float64"
  flucMFDFAForwCompute :: "float64 list \<Rightarrow> int \<Rightarrow> float64 \<Rightarrow> int \<Rightarrow> int \<Rightarrow> float64"
  flucMFDFAForwBackwCompute :: "float64 list \<Rightarrow> int \<Rightarrow> float64 \<Rightarrow> int \<Rightarrow> int \<Rightarrow> float64"

section \<open>The class MFDFA\<close>

text \<open>
  The attributes of lines 49 to 53. An \<^verbatim>\<open>np.ndarray\<close> attribute of a Cython class is
  \<^verbatim>\<open>None\<close> until it is assigned, a C \<^verbatim>\<open>int\<close> attribute is 0. The attributes are
  prefixed with \<open>self_\<close>, since \<open>n\<close>, \<open>F\<close>, \<open>qList\<close> and \<open>nStep\<close> are also names
  of arguments.
\<close>

record mfdfa =
  self_n :: "int list option"
  self_tsVec :: "float64 list"
  self_F :: "float64 list list option"
  self_listH :: "float64 list option"
  self_qList :: "float64 list option"
  self_nStep :: int
  self_isComputed :: bool

text \<open>
  \<^verbatim>\<open>__init__\<close>, lines 55 to 58, on a sequence of doubles. It has no \<^verbatim>\<open>raise\<close>; the
  result is a sum all the same, so that "construction fails" can be stated.
\<close>

definition MFDFA_init :: "float64 list \<Rightarrow> error + mfdfa" where
  "MFDFA_init tsVec =
     Inr \<lparr> self_n = None,
           self_tsVec = filter (\<lambda>x. \<not> isnan x) tsVec,
           self_F = None,
           self_listH = None,
           self_qList = None,
           self_nStep = 0,
           self_isComputed = False \<rparr>"

subsection \<open>computeFlucVec\<close>

text \<open>
  \<^verbatim>\<open>np.arange(start, stop, step)\<close> on integers, as Python's \<^verbatim>\<open>range\<close>: the values
  \<open>start, start + step, ...\<close> before \<open>stop\<close>. A step of 0 makes numpy raise; the
  source calls it with \<open>nStep\<close>, which line 116 has checked to be at least 1.
\<close>

function arange :: "int \<Rightarrow> int \<Rightarrow> int \<Rightarrow> int list" where
  "arange start stop step =
     (if 0 < step \<and> start < stop then start # arange (start + step) stop step
      else if step < 0 \<and> stop < start then start # arange (start + step) stop step
      else [])"
  by pat_completeness auto
termination
  by (relation "measure (\<lambda>(start, stop, step). nat (if 0 < step then stop - start else start - stop))")
     auto

declare arange.simps [simp del]

text \<open>A Python integer converts to a C \<^verbatim>\<open>int\<close> (32 bits) only in this range.\<close>

definition fits_cint :: "int \<Rightarrow> bool" where
  "fits_cint k \<longleftrightarrow> - (2 ^ 31) \<le> k \<and> k < 2 ^ 31"

text \<open>
  \<^verbatim>\<open>cy_computeFlucVec\<close>, lines 63 to 85. Its integer arguments are C ints, so
  \<^verbatim>\<open>nMax + 1\<close> of line 71 is C arithmetic: at the largest int it is undefined, which the
  model reports as \<open>CIntOverflow\<close>. Cell \<open>i * nLen + j\<close> of the flat \<^verbatim>\<open>mtxf\<close> is
  cell \<open>(i, j)\<close> of the reshaped matrix that is returned: row \<open>i\<close> belongs to
  \<open>q_list[i]\<close>, column \<open>j\<close> to \<open>vecn[j]\<close>.
\<close>

definition cy_computeFlucVec ::
  "numerics \<Rightarrow> mfdfa \<Rightarrow> int \<Rightarrow> int \<Rightarrow> float64 list \<Rightarrow> int \<Rightarrow> int \<Rightarrow> int \<Rightarrow> bool
     \<Rightarrow> error + mfdfa \<times> int list \<times> float64 list list" where
  "cy_computeFlucVec E self tsLen nMin q_list nMax polOrd nStep revSeg =
     (if \<not> fits_cint (nMax + 1) then Inl CIntOverflow
      else
        let self1 = self\<lparr>self_qList := Some q_list, self_nStep := nStep\<rparr>;
            vecn = arange nMin (nMax + 1) nStep;
            vects = self_tsVec self1;
            fluc = (if revSeg then flucMFDFAForwBackwCompute E else flucMFDFAForwCompute E);
            mtxf = map (\<lambda>q. map (\<lambda>w. fluc vects w q tsLen polOrd) vecn) q_list
        in Inr (self1, vecn, mtxf))"

text \<open>
  Lines 129 to 134. The last branch builds its message from \<^verbatim>\<open>type(q_list)\<close>, and
  \<^verbatim>\<open>q_list\<close> is bound nowhere in \<^verbatim>\<open>computeFlucVec\<close> (the argument is
  \<^verbatim>\<open>qList\<close>): evaluating the name fails before \<^verbatim>\<open>ValueError\<close> is built.
\<close>

fun qList_array :: "qarg \<Rightarrow> error + float64 list" where
  "qList_array (QFloat q) = Inr [q]"
| "qList_array (QList qs) = Inr qs"
| "qList_array (QNdarray qs) = Inr qs"
| "qList_array _ = Inl (NameError ''q_list'')"

text \<open>
  \<^verbatim>\<open>computeFlucVec\<close>, lines 112 to 139. The arguments are Python integers; they are
  converted to C ints when \<^verbatim>\<open>cy_computeFlucVec\<close> is called on line 136.
  \<^verbatim>\<open>int(tsLen / 4)\<close> is the integer quotient, \<open>tsLen\<close> being a length.
\<close>

definition computeFlucVec ::
  "numerics \<Rightarrow> mfdfa \<Rightarrow> int \<Rightarrow> qarg \<Rightarrow> int \<Rightarrow> int \<Rightarrow> int \<Rightarrow> bool
     \<Rightarrow> error + mfdfa \<times> int list \<times> float64 list list" where
  "computeFlucVec E self nMin qList nMax0 polOrd nStep revSeg =
     (let tsLen = int (length (self_tsVec self)) in
      if polOrd < 1 then Inl (ValueError PolOrdBelowOne)
      else if nStep < 1 then Inl (ValueError StepBelowOne)
      else
        let nMax = (if nMax0 = - 999 then tsLen div 4 else nMax0) in
        if nMax < 3 \<or> nMin < 3 then Inl (ValueError ScaleBelowThree)
        else if nMax \<le> nMin then Inl (ValueError NMaxNotAboveNMin)
        else if nMax > tsLen then Inl (ValueError NMaxAboveLength)
        else if nMin < polOrd + 2 then Inl (ValueError (NMinBelowPolOrd (polOrd + 2)))
        else
          (case qList_array qList of
            Inl e \<Rightarrow> Inl e
          | Inr q_list \<Rightarrow>
              if \<not> (fits_cint tsLen \<and> fits_cint nMin \<and> fits_cint nMax
                     \<and> fits_cint polOrd \<and> fits_cint nStep)
              then Inl OverflowError
              else
                (case cy_computeFlucVec E self tsLen nMin q_list nMax polOrd nStep revSeg of
                  Inl e \<Rightarrow> Inl e
                | Inr (self1, vecn, mtxf) \<Rightarrow>
                    Inr (self1\<lparr>self_n := Some vecn, self_F := Some mtxf,
                                self_isComputed := True\<rparr>, vecn, mtxf))))"

subsection \<open>fitFlucVec\<close>

text \<open>\<^verbatim>\<open>self.n[0]\<close> and \<^verbatim>\<open>self.n[-1]\<close>: they raise on \<^verbatim>\<open>None\<close> and on an empty array.\<close>

definition n_first :: "int list option \<Rightarrow> error + int" where
  "n_first ns = (case ns of None \<Rightarrow> Inl TypeError | Some [] \<Rightarrow> Inl IndexError | Some (x # xs) \<Rightarrow> Inr x)"

definition n_last :: "int list option \<Rightarrow> error + int" where
  "n_last ns =
     (case ns of None \<Rightarrow> Inl TypeError | Some [] \<Rightarrow> Inl IndexError | Some (x # xs) \<Rightarrow> Inr (last (x # xs)))"

text \<open>
  \<^verbatim>\<open>int(a / b)\<close> of lines 181 and 182, where \<open>a\<close> is a numpy integer and \<open>b\<close> the
  attribute \<^verbatim>\<open>nStep\<close>: the true quotient, truncated towards zero (the quotient of two
  32-bit integers is a double close enough to the exact quotient to truncate to the same
  integer). Dividing a numpy integer by zero gives an infinity, or NaN for 0 / 0, which
  \<^verbatim>\<open>int\<close> refuses.
\<close>

definition py_int_quot :: "int \<Rightarrow> int \<Rightarrow> error + int" where
  "py_int_quot a b =
     (if b = 0 then (if a = 0 then Inl (ValueError NanToInteger) else Inl OverflowError)
      else Inr (sgn a * sgn b * (\<bar>a\<bar> div \<bar>b\<bar>)))"

text \<open>The slice \<^verbatim>\<open>xs[a:b]\<close> of Python: a negative bound counts from the end.\<close>

definition py_slice :: "'a list \<Rightarrow> int \<Rightarrow> int \<Rightarrow> 'a list" where
  "py_slice xs a b =
     (let len = int (length xs);
          lo = (if a < 0 then max (a + len) 0 else min a len);
          hi = (if b < 0 then max (b + len) 0 else min b len)
      in drop (nat lo) (take (nat hi) xs))"

text \<open>\<^verbatim>\<open>np.log(x) / np.log(logBase)\<close> on one entry, and a C int of \<^verbatim>\<open>n\<close> as a double.\<close>

definition log_b :: "numerics \<Rightarrow> float64 \<Rightarrow> float64 \<Rightarrow> float64" where
  "log_b E logBase x = fdiv E (flog E x) (flog E logBase)"

definition float_of_int :: "int \<Rightarrow> float64" where
  "float_of_int k = Finite (real_of_int k)"

text \<open>
  The loop of lines 188 to 193 over the rows still to do; the accumulator holds
  \<^verbatim>\<open>self.listH\<close>, \<^verbatim>\<open>list_H_intercept\<close> and what has been printed. The loop
  writes into \<^verbatim>\<open>self.listH\<close> itself, so when an iteration raises, the error comes
  with the array as the iterations before it have left it, and with what was printed.
\<close>

fun fit_loop ::
  "numerics \<Rightarrow> float64 \<Rightarrow> bool \<Rightarrow> int list \<Rightarrow> float64 list list option \<Rightarrow> float64 list \<Rightarrow> int \<Rightarrow> int
     \<Rightarrow> nat list \<Rightarrow> float64 list \<times> float64 list \<times> notice list
     \<Rightarrow> error \<times> float64 list \<times> notice list + float64 list \<times> float64 list \<times> notice list" where
  "fit_loop E logBase verbose ns Fopt qs start end' [] acc = Inr acc"
| "fit_loop E logBase verbose ns Fopt qs start end' (i # rest) (listH, list_H_intercept, out) =
     (case Fopt of
        None \<Rightarrow> Inl (TypeError, listH, out)
      | Some Fm \<Rightarrow>
          if length Fm \<le> i then Inl (IndexError, listH, out)
          else
            (case polyfit E
                    (map (\<lambda>k. log_b E logBase (float_of_int k)) (py_slice ns start (end' + 1)))
                    (map (log_b E logBase) (py_slice (Fm ! i) start (end' + 1))) of
               Inl e \<Rightarrow> Inl (e, listH, out)
             | Inr (slope, intercept) \<Rightarrow>
                 fit_loop E logBase verbose ns Fopt qs start end' rest
                   (listH[i := slope], list_H_intercept[i := intercept],
                    out @ (if verbose then [FitResult (qs ! i) intercept slope] else []))))"

text \<open>
  \<^verbatim>\<open>fitFlucVec\<close>, lines 168 to 197, on C ints \<open>nStart\<close> and \<open>nEnd\<close>. When the
  method returns, the result is the new state, the returned value (\<^verbatim>\<open>None\<close> when
  the method ends without \<^verbatim>\<open>return\<close>) and what was printed. When it raises, the
  result is the error, the state the session is left in and what was printed before.
  Up to line 182 nothing has been assigned or printed. Line 183 assigns
  \<^verbatim>\<open>self.listH = np.zeros(qLen)\<close> before the loop: an error raised in the loop
  leaves the session with that array, holding the slopes of the iterations that
  were completed.
\<close>

definition fitFlucVec ::
  "numerics \<Rightarrow> mfdfa \<Rightarrow> int \<Rightarrow> int \<Rightarrow> float64 \<Rightarrow> bool
     \<Rightarrow> error \<times> mfdfa \<times> notice list
       + mfdfa \<times> (float64 list \<times> float64 list) option \<times> notice list" where
  "fitFlucVec E self nStart0 nEnd0 logBase verbose =
     (if self_isComputed self then
        (case (if nStart0 = - 999 then n_first (self_n self) else Inr nStart0) of
           Inl e \<Rightarrow> Inl (e, self, [])
         | Inr nStart \<Rightarrow>
        (case (if nEnd0 = - 999 then n_last (self_n self) else Inr nEnd0) of
           Inl e \<Rightarrow> Inl (e, self, [])
         | Inr nEnd \<Rightarrow>
        if nStart > nEnd then Inl (ValueError NEndBelowNStart, self, [])
        else
        (case n_first (self_n self) of
           Inl e \<Rightarrow> Inl (e, self, [])
         | Inr n0 \<Rightarrow>
        (case n_last (self_n self) of
           Inl e \<Rightarrow> Inl (e, self, [])
         | Inr nl \<Rightarrow>
        if nStart < n0 \<or> nEnd > nl then Inl (ValueError (FitLimitsOutside n0 nl), self, [])
        else
        (case self_n self of
           None \<Rightarrow> Inl (TypeError, self, [])
         | Some ns \<Rightarrow>
        if nStart \<notin> set ns \<or> nEnd \<notin> set ns then Inl (ValueError FitLimitsNotInN, self, [])
        else
        (case self_qList self of
           None \<Rightarrow> Inl (TypeError, self, [])
         | Some qs \<Rightarrow>
        (case py_int_quot (nStart - n0) (self_nStep self) of
           Inl e \<Rightarrow> Inl (e, self, [])
         | Inr start \<Rightarrow>
        (case py_int_quot (nEnd - n0) (self_nStep self) of
           Inl e \<Rightarrow> Inl (e, self, [])
         | Inr end' \<Rightarrow>
        (case fit_loop E logBase verbose ns (self_F self) qs start end' [0..<length qs]
                (replicate (length qs) (Finite 0), replicate (length qs) (Finite 0),
                 if verbose then [FitLimits nStart nEnd] else []) of
           Inl (e, listH, out) \<Rightarrow> Inl (e, self\<lparr>self_listH := Some listH\<rparr>, out)
         | Inr (listH, list_H_intercept, out) \<Rightarrow>
             Inr (self\<lparr>self_listH := Some listH\<rparr>, Some (listH, list_H_intercept), out))))))))))
      else Inr (self, None, [NothingToFit]))"

subsection \<open>computeMassExponents and computeMultifractalSpectrum\<close>

text \<open>
  An elementwise operation of numpy on two one-dimensional arrays: the lengths agree, or
  an array of length 1 is repeated; otherwise numpy raises. On \<^verbatim>\<open>None\<close>, Python
  raises \<^verbatim>\<open>TypeError\<close>.
\<close>

definition np_broadcast ::
  "(float64 \<Rightarrow> float64 \<Rightarrow> float64) \<Rightarrow> float64 list \<Rightarrow> float64 list \<Rightarrow> error + float64 list" where
  "np_broadcast f xs ys =
     (if length xs = length ys then Inr (map2 f xs ys)
      else if length xs = 1 then Inr (map (f (hd xs)) ys)
      else if length ys = 1 then Inr (map (\<lambda>x. f x (hd ys)) xs)
      else Inl (ValueError CannotBroadcast))"

definition np_binop ::
  "(float64 \<Rightarrow> float64 \<Rightarrow> float64) \<Rightarrow> float64 list option \<Rightarrow> float64 list option
     \<Rightarrow> error + float64 list" where
  "np_binop f a b =
     (case a of
        None \<Rightarrow> Inl TypeError
      | Some xs \<Rightarrow> (case b of None \<Rightarrow> Inl TypeError | Some ys \<Rightarrow> np_broadcast f xs ys))"

text \<open>\<^verbatim>\<open>np.diff(tau)\<close>: each entry minus the one before it.\<close>

definition np_diff :: "numerics \<Rightarrow> float64 list \<Rightarrow> float64 list" where
  "np_diff E tau = map2 (\<lambda>a b. fsub E b a) tau (tl tau)"

text \<open>\<^verbatim>\<open>computeMassExponents\<close>, lines 212 to 217: the returned value and what was printed.\<close>

definition computeMassExponents ::
  "numerics \<Rightarrow> mfdfa \<Rightarrow> error + float64 list option \<times> notice list" where
  "computeMassExponents E self =
     (if self_isComputed self then
        (case np_binop (fmul E) (self_listH self) (self_qList self) of
           Inl e \<Rightarrow> Inl e
         | Inr hq \<Rightarrow> Inr (Some (map (\<lambda>x. fsub E x (Finite 1)) hq), []))
      else Inr (None, [NothingToFit]))"

text \<open>\<^verbatim>\<open>computeMultifractalSpectrum\<close>, lines 233 to 243.\<close>

definition computeMultifractalSpectrum ::
  "numerics \<Rightarrow> mfdfa \<Rightarrow> error + (float64 list \<times> float64 list) option \<times> notice list" where
  "computeMultifractalSpectrum E self =
     (if self_isComputed self then
        (case self_qList self of
           None \<Rightarrow> Inl TypeError
         | Some qs \<Rightarrow>
             if length qs > 1 then
               (case computeMassExponents E self of
                  Inl e \<Rightarrow> Inl e
                | Inr (None, out) \<Rightarrow> Inl TypeError
                | Inr (Some tau, out) \<Rightarrow>
                    let alpha = map (\<lambda>d. fdiv E d (fsub E (qs ! 1) (qs ! 0))) (np_diff E tau) in
                    (case np_broadcast (fmul E) (butlast qs) alpha of
                       Inl e \<Rightarrow> Inl e
                     | Inr qa \<Rightarrow>
                         (case np_broadcast (fsub E) qa (butlast tau) of
                            Inl e \<Rightarrow> Inl e
                          | Inr mfSpect \<Rightarrow> Inr (Some (alpha, mfSpect), out))))
             else Inl (ValueError TooFewQ))
      else Inr (None, [NothingToFit]))"

subsection \<open>Calls with optional arguments\<close>

text \<open>
  A call of a Python function may leave out an argument that has a default
  (\<open>None\<close> below); the function then receives the default of its signature
  (lines 87 and 143). The arguments of \<^verbatim>\<open>fitFlucVec\<close> are declared as C ints and
  a C float, so the call converts them.
\<close>

definition computeFlucVec_call ::
  "numerics \<Rightarrow> mfdfa \<Rightarrow> int \<Rightarrow> qarg \<Rightarrow> int option \<Rightarrow> int option \<Rightarrow> int option \<Rightarrow> bool option
     \<Rightarrow> error + mfdfa \<times> int list \<times> float64 list list" where
  "computeFlucVec_call E self nMin qList nMax polOrd nStep revSeg =
     computeFlucVec E self nMin qList
       (case nMax of None \<Rightarrow> - 999 | Some v \<Rightarrow> v)
       (case polOrd of None \<Rightarrow> 1 | Some v \<Rightarrow> v)
       (case nStep of None \<Rightarrow> 1 | Some v \<Rightarrow> v)
       (case revSeg of None \<Rightarrow> False | Some v \<Rightarrow> v)"

definition fitFlucVec_call ::
  "numerics \<Rightarrow> mfdfa \<Rightarrow> int option \<Rightarrow> int option \<Rightarrow> float64 option \<Rightarrow> bool option
     \<Rightarrow> error \<times> mfdfa \<times> notice list
       + mfdfa \<times> (float64 list \<times> float64 list) option \<times> notice list" where
  "fitFlucVec_call E self nStart nEnd logBase verbose =
     (let nStart0 = (case nStart of None \<Rightarrow> - 999 | Some v \<Rightarrow> v);
          nEnd0 = (case nEnd of None \<Rightarrow> - 999 | Some v \<Rightarrow> v)
      in if \<not> (fits_cint nStart0 \<and> fits_cint nEnd0) then Inl (OverflowError, self, [])
         else fitFlucVec E self nStart0 nEnd0
                (c_float E (case logBase of None \<Rightarrow> np_e E | Some v \<Rightarrow> v))
                (case verbose of None \<Rightarrow> False | Some v \<Rightarrow> v))"

section \<open>A concrete arithmetic and concrete states for the examples\<close>

text \<open>
  The theorems below hold for every \<open>numerics\<close>. Their examples run the model on one
  of them, \<open>exact\<close>: arithmetic without rounding on finite operands (on the small
  integers of the examples the arithmetic of doubles is exact as well), division by zero
  as IEEE 754 gives it, NaN for the other operands outside the finite numbers, Euler's
  number for \<^verbatim>\<open>np.e\<close>, no rounding to a C float, the least-squares line by its closed
  formula, and a fluctuation function that returns the window size (a stand-in: the C
  routines are not in the sources).
\<close>

fun exact_mul :: "float64 \<Rightarrow> float64 \<Rightarrow> float64" where
  "exact_mul (Finite a) (Finite b) = Finite (a * b)"
| "exact_mul _ _ = NaN"

fun exact_sub :: "float64 \<Rightarrow> float64 \<Rightarrow> float64" where
  "exact_sub (Finite a) (Finite b) = Finite (a - b)"
| "exact_sub _ _ = NaN"

fun exact_div :: "float64 \<Rightarrow> float64 \<Rightarrow> float64" where
  "exact_div (Finite a) (Finite b) =
     (if b \<noteq> 0 then Finite (a / b) else if 0 < a then PosInf else if a < 0 then NegInf else NaN)"
| "exact_div _ _ = NaN"

fun exact_log :: "float64 \<Rightarrow> float64" where
  "exact_log (Finite a) = (if 0 < a then Finite (ln a) else if a = 0 then NegInf else NaN)"
| "exact_log PosInf = PosInf"
| "exact_log _ = NaN"

fun the_reals :: "float64 list \<Rightarrow> real list option" where
  "the_reals [] = Some []"
| "the_reals (Finite a # xs) = map_option ((#) a) (the_reals xs)"
| "the_reals (_ # xs) = None"

definition line_fit :: "float64 list \<Rightarrow> float64 list \<Rightarrow> error + float64 \<times> float64" where
  "line_fit xs ys =
     (case the_reals xs of
        None \<Rightarrow> Inl LinAlgError
      | Some a \<Rightarrow>
          (case the_reals ys of
             None \<Rightarrow> Inl LinAlgError
           | Some b \<Rightarrow>
               if a = [] \<or> length a \<noteq> length b then Inl TypeError
               else
                 let m = real (length a);
                     sx = sum_list a;
                     sy = sum_list b;
                     sxx = sum_list (map (\<lambda>x. x * x) a);
                     sxy = sum_list (map2 (*) a b);
                     d = m * sxx - sx * sx
                 in Inr (Finite ((m * sxy - sx * sy) / d), Finite ((sy * sxx - sx * sxy) / d))))"

definition window_size :: "float64 list \<Rightarrow> int \<Rightarrow> float64 \<Rightarrow> int \<Rightarrow> int \<Rightarrow> float64" where
  "window_size y curr_win_size q N pol_ord = Finite (real_of_int curr_win_size)"

definition exact :: numerics where
  "exact = \<lparr> fmul = exact_mul, fsub = exact_sub, fdiv = exact_div, flog = exact_log,
             np_e = Finite (exp 1), c_float = (\<lambda>x. x),
             polyfit = line_fit,
             flucMFDFAForwCompute = window_size,
             flucMFDFAForwBackwCompute = window_size \<rparr>"

text \<open>A series of 16 finite values, and the state constructed from it.\<close>

definition series16 :: "float64 list" where
  "series16 = map (\<lambda>k. Finite (real k)) [0..<16]"

definition fresh16 :: mfdfa where
  "fresh16 = \<lparr> self_n = None, self_tsVec = series16, self_F = None, self_listH = None,
               self_qList = None, self_nStep = 0, self_isComputed = False \<rparr>"

text \<open>
  The state after \<^verbatim>\<open>computeFlucVec(3, [0.0, 1.0, 3.0])\<close> on it (so \<open>nMax = 16 div 4\<close>),
  under \<open>exact\<close>.
\<close>

definition computed16 :: mfdfa where
  "computed16 = \<lparr> self_n = Some [3, 4], self_tsVec = series16,
                  self_F = Some [[Finite 3, Finite 4], [Finite 3, Finite 4], [Finite 3, Finite 4]],
                  self_listH = None,
                  self_qList = Some [Finite 0, Finite 1, Finite 3],
                  self_nStep = 1, self_isComputed = True \<rparr>"

text \<open>
  That state once a fit has stored the slope 1 for each of the three orders (the slope of
  \<open>log F\<close> against \<open>log s\<close> when \<open>F(s) = s\<close>).
\<close>

definition fitted16 :: mfdfa where
  "fitted16 = computed16\<lparr>self_listH := Some [Finite 1, Finite 1, Finite 1]\<rparr>"

text \<open>The state constructed from a series that has no entry but NaN.\<close>

definition fresh_empty :: mfdfa where
  "fresh_empty = \<lparr> self_n = None, self_tsVec = [], self_F = None, self_listH = None,
                   self_qList = None, self_nStep = 0, self_isComputed = False \<rparr>"

section \<open>The words of the specification\<close>

text \<open>
  The definitions of this section follow the specification, not the source; the theorems
  compare the source's functions with them.

  The mass exponent of one q-order, \<open>tau = H * q - 1\<close>, in the arithmetic of doubles.
\<close>

definition mass_exponent :: "numerics \<Rightarrow> float64 \<Rightarrow> float64 \<Rightarrow> float64" where
  "mass_exponent E h q = fsub E (fmul E h q) (Finite 1)"

text \<open>
  The singularity strengths as C3 words them: the difference of consecutive \<open>tau\<close>
  divided by the spacing of the same two consecutive q-orders.
\<close>

definition alpha_consecutive_spacing :: "numerics \<Rightarrow> float64 list \<Rightarrow> float64 list \<Rightarrow> float64 list" where
  "alpha_consecutive_spacing E qs tau =
     map (\<lambda>i. fdiv E (fsub E (tau ! Suc i) (tau ! i)) (fsub E (qs ! Suc i) (qs ! i)))
       [0..<length qs - 1]"

text \<open>
  The validation of section 4.2: the checks in their order of precedence, each with the
  error of its own, and the error of the first check that fails.
\<close>

definition scale_checks :: "int \<Rightarrow> int \<Rightarrow> int \<Rightarrow> int \<Rightarrow> int \<Rightarrow> (bool \<times> value_error) list" where
  "scale_checks N nMin nMax polOrd nStep =
     [(polOrd < 1, PolOrdBelowOne),
      (nStep < 1, StepBelowOne),
      (nMax < 3 \<or> nMin < 3, ScaleBelowThree),
      (nMax \<le> nMin, NMaxNotAboveNMin),
      (nMax > N, NMaxAboveLength),
      (nMin < polOrd + 2, NMinBelowPolOrd (polOrd + 2))]"

fun first_failing :: "(bool \<times> 'e) list \<Rightarrow> 'e option" where
  "first_failing [] = None"
| "first_failing ((fails, e) # rest) = (if fails then Some e else first_failing rest)"

text \<open>
  The \<open>nMax\<close> the checks are made on: the argument, or \<open>floor(N / 4)\<close> when the
  argument was left out, which the function receives as -999.
\<close>

definition nMax_used :: "int \<Rightarrow> int \<Rightarrow> int" where
  "nMax_used N nMax = (if nMax = - 999 then N div 4 else nMax)"

text \<open>
  The fit of section 4.5: the limits that are accepted, and the points of the regression
  for one q-order, \<open>log s\<close> against \<open>log F_q(s)\<close>, over the scales \<open>s\<close> of the
  closed range between the limits. \<open>row\<close> is the row of the fluctuation matrix for the
  q-order: its entry at a position belongs to the scale at that position. The logarithm
  in the configured base is the logarithm of the number divided by the logarithm of the
  base, \<open>flog\<close> being the logarithm of doubles; a scale enters as the double equal to it.
\<close>

definition log_in_base :: "numerics \<Rightarrow> float64 \<Rightarrow> float64 \<Rightarrow> float64" where
  "log_in_base E base x = fdiv E (flog E x) (flog E base)"

definition fit_range_valid :: "int list \<Rightarrow> int \<Rightarrow> int \<Rightarrow> bool" where
  "fit_range_valid ns nStart nEnd \<longleftrightarrow>
     nStart \<le> nEnd \<and> hd ns \<le> nStart \<and> nEnd \<le> last ns \<and> nStart \<in> set ns \<and> nEnd \<in> set ns"

definition log_scales :: "numerics \<Rightarrow> float64 \<Rightarrow> int list \<Rightarrow> int \<Rightarrow> int \<Rightarrow> float64 list" where
  "log_scales E logBase ns nStart nEnd =
     map (\<lambda>k. log_in_base E logBase (Finite (real_of_int k)))
       (filter (\<lambda>k. nStart \<le> k \<and> k \<le> nEnd) ns)"

definition log_fluctuations ::
  "numerics \<Rightarrow> float64 \<Rightarrow> int list \<Rightarrow> float64 list \<Rightarrow> int \<Rightarrow> int \<Rightarrow> float64 list" where
  "log_fluctuations E logBase ns row nStart nEnd =
     map (\<lambda>(k, f). log_in_base E logBase f)
       (filter (\<lambda>(k, f). nStart \<le> k \<and> k \<le> nEnd) (zip ns row))"

section \<open>Construction\<close>

lemma filter_finite_notnan: "filter isfinite (filter (\<lambda>x. \<not> isnan x) xs) = filter isfinite xs"
proof (induction xs)
  case Nil
  show ?case by simp
next
  case (Cons x xs)
  then show ?case by (cases x) simp_all
qed

lemma filter_notnan_when_real_or_nan:
  assumes "\<forall>x\<in>set xs. isfinite x \<or> isnan x"
  shows "filter (\<lambda>x. \<not> isnan x) xs = filter isfinite xs"
  using assms
proof (induction xs)
  case Nil
  show ?case by simp
next
  case (Cons x xs)
  then show ?case by (cases x) simp_all
qed

text \<open>
  C4. Construction stores the input without its NaN entries, in the order of the input:
  the stored series is the input filtered by "is not NaN". Every finite entry is kept,
  in its place among the finite entries. When the input is a sequence of reals and NaNs
  (no infinity), the stored series is exactly the finite entries, and its length is their
  number.
\<close>

theorem C4_init_removes_nan:
  "\<exists>s. MFDFA_init xs = Inr s
     \<and> self_tsVec s = filter (\<lambda>x. \<not> isnan x) xs
     \<and> filter isfinite (self_tsVec s) = filter isfinite xs
     \<and> ((\<forall>x\<in>set xs. isfinite x \<or> isnan x) \<longrightarrow>
          self_tsVec s = filter isfinite xs
          \<and> length (self_tsVec s) = length (filter isfinite xs))"
proof -
  obtain s where s: "MFDFA_init xs = Inr s" "self_tsVec s = filter (\<lambda>x. \<not> isnan x) xs"
    by (simp add: MFDFA_init_def)
  have kept: "filter isfinite (self_tsVec s) = filter isfinite xs"
    unfolding s(2) by (rule filter_finite_notnan)
  have reals: "self_tsVec s = filter isfinite xs" if "\<forall>x\<in>set xs. isfinite x \<or> isnan x"
    unfolding s(2) using that by (rule filter_notnan_when_real_or_nan)
  from s kept reals show ?thesis by metis
qed

theorem C4_witness:
  "\<exists>s. MFDFA_init [Finite 1, NaN, Finite 2, NaN, NaN, Finite 3] = Inr s
     \<and> self_tsVec s = [Finite 1, Finite 2, Finite 3]
     \<and> length (self_tsVec s) = 3"
  using C4_init_removes_nan [of "[Finite 1, NaN, Finite 2, NaN, NaN, Finite 3]"]
  by auto

section \<open>The examples, run\<close>

text \<open>
  Under \<open>exact\<close>, constructing a session on \<open>series16\<close>, computing the fluctuations
  for the orders 0, 1 and 3 and fitting over all scales goes through the states
  \<open>fresh16\<close>, \<open>computed16\<close> and \<open>fitted16\<close>.
\<close>

lemma example_init: "MFDFA_init series16 = Inr fresh16"
  by (simp add: MFDFA_init_def fresh16_def series16_def)

lemma example_compute:
  "computeFlucVec exact fresh16 3 (QList [Finite 0, Finite 1, Finite 3]) (- 999) 1 1 False
     = Inr (computed16, [3, 4],
            [[Finite 3, Finite 4], [Finite 3, Finite 4], [Finite 3, Finite 4]])"
  by (simp add: computeFlucVec_def cy_computeFlucVec_def fresh16_def series16_def
        computed16_def fits_cint_def arange.simps exact_def window_size_def Let_def)

lemma example_determinant:
  "2 * (ln 3 * ln 3 + ln 4 * ln 4) - (ln 3 + ln 4) * (ln 3 + ln 4) \<noteq> (0::real)"
proof -
  have "ln (3::real) \<noteq> ln 4" by simp
  then have "(ln (3::real) - ln 4) * (ln 3 - ln 4) \<noteq> 0" by simp
  moreover have "2 * (ln 3 * ln 3 + ln 4 * ln 4) - (ln 3 + ln 4) * (ln 3 + ln 4)
                   = (ln (3::real) - ln 4) * (ln 3 - ln 4)"
    by (simp add: algebra_simps)
  ultimately show ?thesis by simp
qed

lemma example_fit:
  "fitFlucVec exact computed16 3 4 (Finite (exp 1)) False
     = Inr (fitted16,
            Some ([Finite 1, Finite 1, Finite 1], [Finite 0, Finite 0, Finite 0]), [])"
  using example_determinant
  by (simp add: fitFlucVec_def computed16_def fitted16_def n_first_def n_last_def
        py_int_quot_def py_slice_def log_b_def float_of_int_def exact_def line_fit_def
        window_size_def Let_def upt_rec)

text \<open>
  With the base -2 the logarithm of the base is NaN, so are the points of the
  regression, and the fit of the first q-order raises: the session is left with the
  zeros of line 183 in \<^verbatim>\<open>listH\<close>.
\<close>

lemma example_failed_fit:
  "fitFlucVec exact computed16 3 4 (Finite (- 2)) False
     = Inl (LinAlgError,
            computed16\<lparr>self_listH := Some [Finite 0, Finite 0, Finite 0]\<rparr>, [])"
  by (simp add: fitFlucVec_def computed16_def n_first_def n_last_def
        py_int_quot_def py_slice_def log_b_def float_of_int_def exact_def line_fit_def
        Let_def upt_rec)

section \<open>What a call of fitFlucVec leaves behind\<close>

lemma fit_loop_length:
  "fit_loop E lb v ns Fopt qs st en idxs (H0, I0, out0) = Inr (H, I, out)
   \<Longrightarrow> length H = length H0 \<and> length I = length I0"
proof (induction idxs arbitrary: H0 I0 out0)
  case Nil
  then show ?case by simp
next
  case (Cons i rest)
  then show ?case
    by (auto split: option.splits if_splits sum.splits)
qed

lemma fit_loop_error_length:
  "fit_loop E lb v ns Fopt qs st en idxs (H0, I0, out0) = Inl (e, H, out)
   \<Longrightarrow> length H = length H0"
proof (induction idxs arbitrary: H0 I0 out0)
  case Nil
  then show ?case by simp
next
  case (Cons i rest)
  then show ?case
    by (auto split: option.splits if_splits sum.splits)
qed

lemma fitFlucVec_success:
  assumes "fitFlucVec E s nStart nEnd logBase verbose = Inr (s', Some (H, I), out)"
  shows "self_isComputed s' \<and> self_listH s' = Some H \<and> self_qList s' = self_qList s
         \<and> (\<exists>qs. self_qList s = Some qs \<and> length H = length qs \<and> length I = length qs)"
  using assms
  by (auto simp: fitFlucVec_def split: if_splits sum.splits option.splits
           dest!: fit_loop_length)

text \<open>
  A call that raises has changed nothing, or it has reached the loop and has assigned
  \<^verbatim>\<open>listH\<close> an array with one entry for each q-order.
\<close>

lemma fitFlucVec_error_state:
  assumes "fitFlucVec E s nStart nEnd logBase verbose = Inl (e, s', out)"
  shows "s' = s
       \<or> (\<exists>qs H. self_isComputed s \<and> self_qList s = Some qs \<and> length H = length qs
               \<and> s' = s\<lparr>self_listH := Some H\<rparr>)"
  using assms
  by (auto simp: fitFlucVec_def split: if_splits sum.splits option.splits
           dest!: fit_loop_error_length)

lemma computeMassExponents_assigned:
  assumes "self_isComputed s" and "self_qList s = Some qs" and "length H = length qs"
  shows "computeMassExponents E (s\<lparr>self_listH := Some H\<rparr>)
           = Inr (Some (map2 (\<lambda>h q. fsub E (fmul E h q) (Finite 1)) H qs), [])"
  using assms
  by (simp add: computeMassExponents_def np_binop_def np_broadcast_def case_prod_unfold)

section \<open>Mass exponents and the multifractal spectrum\<close>

lemma length_np_diff: "length (np_diff E tau) = length tau - 1"
  by (simp add: np_diff_def)

lemma nth_np_diff:
  "i < length tau - 1 \<Longrightarrow> np_diff E tau ! i = fsub E (tau ! Suc i) (tau ! i)"
  by (simp add: np_diff_def nth_tl)

lemma np_broadcast_same_length:
  "length xs = length ys \<Longrightarrow> np_broadcast f xs ys = Inr (map2 f xs ys)"
  by (simp add: np_broadcast_def)

text \<open>
  C2. After a successful fit, which returns the slopes \<open>H\<close> and stores them in
  \<^verbatim>\<open>listH\<close>, \<^verbatim>\<open>computeMassExponents\<close> returns an array with one entry for each
  q-order, and entry \<open>i\<close> is \<open>H[i] * q[i] - 1\<close>, computed from the stored slopes.
\<close>

theorem C2_mass_exponents_from_fit:
  assumes "fitFlucVec E s nStart nEnd logBase verbose = Inr (s', Some (H, I), out)"
  shows "\<exists>qs tau. self_qList s' = Some qs \<and> self_listH s' = Some H
           \<and> computeMassExponents E s' = Inr (Some tau, [])
           \<and> length tau = length qs \<and> length H = length qs
           \<and> (\<forall>i<length qs. tau ! i = fsub E (fmul E (H ! i) (qs ! i)) (Finite 1))"
proof -
  from fitFlucVec_success [OF assms] obtain qs where
    st: "self_isComputed s'" "self_listH s' = Some H" "self_qList s' = Some qs"
    and len: "length H = length qs"
    by auto
  define tau where "tau = map (\<lambda>x. fsub E x (Finite 1)) (map2 (fmul E) H qs)"
  have "computeMassExponents E s' = Inr (Some tau, [])"
    using st len
    by (simp add: computeMassExponents_def np_binop_def np_broadcast_def tau_def)
  moreover have "length tau = length qs"
    using len by (simp add: tau_def)
  moreover have "\<forall>i<length qs. tau ! i = fsub E (fmul E (H ! i) (qs ! i)) (Finite 1)"
    using len by (simp add: tau_def)
  ultimately show ?thesis using st len by blast
qed

theorem C2_witness:
  "fitFlucVec exact computed16 3 4 (Finite (exp 1)) False
     = Inr (fitted16,
            Some ([Finite 1, Finite 1, Finite 1], [Finite 0, Finite 0, Finite 0]), [])
   \<and> self_qList fitted16 = Some [Finite 0, Finite 1, Finite 3]
   \<and> computeMassExponents exact fitted16 = Inr (Some [Finite (- 1), Finite 0, Finite 2], [])"
proof -
  from C2_mass_exponents_from_fit [OF example_fit] obtain qs tau where
    qs: "self_qList fitted16 = Some qs"
    and tau: "computeMassExponents exact fitted16 = Inr (Some tau, [])" "length tau = length qs"
    and nth: "\<forall>i<length qs. tau ! i
                = fsub exact (fmul exact ([Finite 1, Finite 1, Finite 1] ! i) (qs ! i)) (Finite 1)"
    by blast
  from qs have qs_eq: "qs = [Finite 0, Finite 1, Finite 3]"
    by (simp add: fitted16_def computed16_def)
  from nth have "tau ! 0 = Finite (- 1)" "tau ! 1 = Finite 0" "tau ! 2 = Finite 2"
    by (simp_all add: qs_eq exact_def)
  with tau(2) have "tau = [Finite (- 1), Finite 0, Finite 2]"
    by (simp add: qs_eq list_eq_iff_nth_eq less_Suc_eq numeral_3_eq_3 numeral_2_eq_2)
  with tau(1) qs qs_eq example_fit show ?thesis by simp
qed

text \<open>
  C3, as the code has it. In a session whose fluctuations have been computed,
  \<^verbatim>\<open>computeMultifractalSpectrum\<close> fails with the error of line 241 when there are
  fewer than two q-orders. With two or more, and the slopes of a fit stored for each of
  them, it returns two arrays of one entry less than there are q-orders: \<open>alpha[i]\<close> is
  \<open>tau[i+1] - tau[i]\<close> divided by \<open>q[1] - q[0]\<close>, the spacing of the first two
  q-orders whatever \<open>i\<close> is, and the spectrum is \<open>q[i] * alpha[i] - tau[i]\<close>.
\<close>

theorem C3_spectrum_first_spacing:
  assumes "self_isComputed s" and "self_qList s = Some qs"
  shows "(length qs < 2 \<longrightarrow> computeMultifractalSpectrum E s = Inl (ValueError TooFewQ))
     \<and> (2 \<le> length qs \<and> self_listH s = Some H \<and> length H = length qs \<longrightarrow>
          (\<exists>alpha mfSpect.
             computeMultifractalSpectrum E s = Inr (Some (alpha, mfSpect), [])
           \<and> length alpha = length qs - 1 \<and> length mfSpect = length qs - 1
           \<and> (\<forall>i<length qs - 1.
                 alpha ! i = fdiv E (fsub E (mass_exponent E (H ! Suc i) (qs ! Suc i))
                                           (mass_exponent E (H ! i) (qs ! i)))
                                   (fsub E (qs ! 1) (qs ! 0))
               \<and> mfSpect ! i = fsub E (fmul E (qs ! i) (alpha ! i))
                                      (mass_exponent E (H ! i) (qs ! i)))))"
proof (intro conjI impI)
  assume "length qs < 2"
  with assms show "computeMultifractalSpectrum E s = Inl (ValueError TooFewQ)"
    by (simp add: computeMultifractalSpectrum_def)
next
  assume h: "2 \<le> length qs \<and> self_listH s = Some H \<and> length H = length qs"
  define tau where "tau = map (\<lambda>x. fsub E x (Finite 1)) (map2 (fmul E) H qs)"
  define alpha where
    "alpha = map (\<lambda>d. fdiv E d (fsub E (qs ! Suc 0) (qs ! 0))) (np_diff E tau)"
  define mf where "mf = map2 (fsub E) (map2 (fmul E) (butlast qs) alpha) (butlast tau)"
  have mass: "computeMassExponents E s = Inr (Some tau, [])"
    using assms h
    by (simp add: computeMassExponents_def np_binop_def np_broadcast_def tau_def)
  have ltau: "length tau = length qs"
    using h by (simp add: tau_def)
  have lalpha: "length alpha = length qs - 1"
    using ltau by (simp add: alpha_def length_np_diff)
  have lmf: "length mf = length qs - 1"
    using ltau lalpha by (simp add: mf_def)
  have qa: "np_broadcast (fmul E) (butlast qs) alpha = Inr (map2 (fmul E) (butlast qs) alpha)"
    using lalpha by (simp add: np_broadcast_same_length)
  have qt: "np_broadcast (fsub E) (map2 (fmul E) (butlast qs) alpha) (butlast tau) = Inr mf"
    unfolding mf_def using lalpha ltau by (simp add: np_broadcast_same_length)
  have res: "computeMultifractalSpectrum E s = Inr (Some (alpha, mf), [])"
    using assms h mass qa qt
    by (simp add: computeMultifractalSpectrum_def Let_def alpha_def [symmetric])
  have tau_nth: "tau ! i = mass_exponent E (H ! i) (qs ! i)" if "i < length qs" for i
    using that h by (simp add: mass_exponent_def tau_def)
  have alpha_nth:
    "alpha ! i = fdiv E (fsub E (mass_exponent E (H ! Suc i) (qs ! Suc i))
                                (mass_exponent E (H ! i) (qs ! i)))
                        (fsub E (qs ! 1) (qs ! 0))"
    if "i < length qs - 1" for i
    using that ltau tau_nth [of i] tau_nth [of "Suc i"]
    by (simp add: alpha_def length_np_diff nth_np_diff)
  have mf_nth:
    "mf ! i = fsub E (fmul E (qs ! i) (alpha ! i)) (mass_exponent E (H ! i) (qs ! i))"
    if "i < length qs - 1" for i
    using that lalpha ltau tau_nth [of i]
    by (simp add: mf_def nth_butlast)
  show "\<exists>alpha mfSpect.
             computeMultifractalSpectrum E s = Inr (Some (alpha, mfSpect), [])
           \<and> length alpha = length qs - 1 \<and> length mfSpect = length qs - 1
           \<and> (\<forall>i<length qs - 1.
                 alpha ! i = fdiv E (fsub E (mass_exponent E (H ! Suc i) (qs ! Suc i))
                                           (mass_exponent E (H ! i) (qs ! i)))
                                   (fsub E (qs ! 1) (qs ! 0))
               \<and> mfSpect ! i = fsub E (fmul E (qs ! i) (alpha ! i))
                                      (mass_exponent E (H ! i) (qs ! i)))"
    using res lalpha lmf alpha_nth mf_nth by blast
qed

theorem C3_witness:
  "computeMultifractalSpectrum exact (computed16\<lparr>self_qList := Some [Finite 2]\<rparr>)
     = Inl (ValueError TooFewQ)
   \<and> (\<exists>alpha mfSpect.
        computeMultifractalSpectrum exact fitted16 = Inr (Some (alpha, mfSpect), [])
      \<and> length alpha = 2 \<and> length mfSpect = 2
      \<and> alpha ! 1 = Finite 2 \<and> mfSpect ! 1 = Finite 2)"
proof -
  have one: "computeMultifractalSpectrum exact (computed16\<lparr>self_qList := Some [Finite 2]\<rparr>)
               = Inl (ValueError TooFewQ)"
    using C3_spectrum_first_spacing
            [of "computed16\<lparr>self_qList := Some [Finite 2]\<rparr>" "[Finite 2]" exact]
    by (simp add: computed16_def)
  from C3_spectrum_first_spacing
         [of fitted16 "[Finite 0, Finite 1, Finite 3]" exact "[Finite 1, Finite 1, Finite 1]"]
  obtain alpha mfSpect where
    res: "computeMultifractalSpectrum exact fitted16 = Inr (Some (alpha, mfSpect), [])"
         "length alpha = 2" "length mfSpect = 2"
    and nth: "\<forall>i<2. alpha ! i
                = fdiv exact
                    (fsub exact
                       (mass_exponent exact ([Finite 1, Finite 1, Finite 1] ! Suc i)
                          ([Finite 0, Finite 1, Finite 3] ! Suc i))
                       (mass_exponent exact ([Finite 1, Finite 1, Finite 1] ! i)
                          ([Finite 0, Finite 1, Finite 3] ! i)))
                    (fsub exact (Finite 1) (Finite 0))
              \<and> mfSpect ! i
                = fsub exact (fmul exact ([Finite 0, Finite 1, Finite 3] ! i) (alpha ! i))
                    (mass_exponent exact ([Finite 1, Finite 1, Finite 1] ! i)
                       ([Finite 0, Finite 1, Finite 3] ! i))"
    by (auto simp: fitted16_def computed16_def)
  from nth have a1: "alpha ! 1 = Finite 2"
    by (simp add: exact_def mass_exponent_def)
  from nth a1 have "mfSpect ! 1 = Finite 2"
    by (simp add: exact_def mass_exponent_def)
  with one res a1 show ?thesis by blast
qed

text \<open>
  C3 as it is stated fails when the q-orders are not evenly spaced. For the orders
  0, 1 and 3 and the slopes 1, 1 and 1, \<open>tau\<close> is -1, 0 and 2. Dividing each
  difference by the spacing of its own two q-orders gives the strengths 1 and 1; the
  code divides both by \<open>q[1] - q[0] = 1\<close> and returns 1 and 2.
\<close>

theorem C3_counterexample:
  "self_qList fitted16 = Some [Finite 0, Finite 1, Finite 3]
   \<and> self_listH fitted16 = Some [Finite 1, Finite 1, Finite 1]
   \<and> computeMassExponents exact fitted16 = Inr (Some [Finite (- 1), Finite 0, Finite 2], [])
   \<and> alpha_consecutive_spacing exact
        [Finite 0, Finite 1, Finite 3] [Finite (- 1), Finite 0, Finite 2]
       = [Finite 1, Finite 1]
   \<and> computeMultifractalSpectrum exact fitted16
       = Inr (Some ([Finite 1, Finite 2], [Finite 1, Finite 2]), [])"
  by (simp add: computeMultifractalSpectrum_def computeMassExponents_def fitted16_def
        computed16_def np_binop_def np_broadcast_def np_diff_def exact_def Let_def
        alpha_consecutive_spacing_def upt_rec)

section \<open>Validation in computeFlucVec\<close>

lemma computeFlucVec_no_later_ValueError:
  "(case qList_array qList of
      Inl e \<Rightarrow> Inl e
    | Inr q_list \<Rightarrow>
        if \<not> ok then Inl OverflowError
        else
          (case cy_computeFlucVec E s tsLen nMin q_list nMax polOrd nStep revSeg of
             Inl e \<Rightarrow> Inl e
           | Inr (self1, vecn, mtxf) \<Rightarrow> Inr (f self1 vecn mtxf, vecn, mtxf)))
   \<noteq> Inl (ValueError m)"
  by (cases qList) (simp_all add: cy_computeFlucVec_def Let_def)

text \<open>
  C6. \<^verbatim>\<open>computeFlucVec\<close> makes the six checks of the specification in their order of
  precedence, each with an error of its own: when some check fails, the error raised is
  that of the first failing check in the order, and when none fails no
  \<^verbatim>\<open>ValueError\<close> is raised at all. Here \<open>nMax\<close> is the value the checks are made
  on: the argument, or \<open>floor(N / 4)\<close> when it was left out (received as -999).
\<close>

theorem C6_validation_precedence:
  assumes "N = int (length (self_tsVec s))"
  shows "(first_failing (scale_checks N nMin (nMax_used N nMax) polOrd nStep) = Some e \<longrightarrow>
            computeFlucVec E s nMin qList nMax polOrd nStep revSeg = Inl (ValueError e))
       \<and> (first_failing (scale_checks N nMin (nMax_used N nMax) polOrd nStep) = None \<longrightarrow>
            (\<forall>m. computeFlucVec E s nMin qList nMax polOrd nStep revSeg \<noteq> Inl (ValueError m)))"
proof -
  define M where "M = nMax_used N nMax"
  define below3 where "below3 \<longleftrightarrow> M < 3 \<or> nMin < 3"
  define rest where "rest =
    (case qList_array qList of
       Inl e \<Rightarrow> Inl e
     | Inr q_list \<Rightarrow>
         if \<not> (fits_cint N \<and> fits_cint nMin \<and> fits_cint M \<and> fits_cint polOrd \<and> fits_cint nStep)
         then Inl OverflowError
         else
           (case cy_computeFlucVec E s N nMin q_list M polOrd nStep revSeg of
              Inl e \<Rightarrow> Inl e
            | Inr (self1, vecn, mtxf) \<Rightarrow>
                Inr (self1\<lparr>self_n := Some vecn, self_F := Some mtxf,
                            self_isComputed := True\<rparr>, vecn, mtxf)))"
  have code: "computeFlucVec E s nMin qList nMax polOrd nStep revSeg =
     (if polOrd < 1 then Inl (ValueError PolOrdBelowOne)
      else if nStep < 1 then Inl (ValueError StepBelowOne)
      else if below3 then Inl (ValueError ScaleBelowThree)
      else if M \<le> nMin then Inl (ValueError NMaxNotAboveNMin)
      else if M > N then Inl (ValueError NMaxAboveLength)
      else if nMin < polOrd + 2 then Inl (ValueError (NMinBelowPolOrd (polOrd + 2)))
      else rest)"
    unfolding computeFlucVec_def Let_def M_def nMax_used_def rest_def below3_def assms ..
  have spec: "first_failing (scale_checks N nMin M polOrd nStep) =
     (if polOrd < 1 then Some PolOrdBelowOne
      else if nStep < 1 then Some StepBelowOne
      else if below3 then Some ScaleBelowThree
      else if M \<le> nMin then Some NMaxNotAboveNMin
      else if M > N then Some NMaxAboveLength
      else if nMin < polOrd + 2 then Some (NMinBelowPolOrd (polOrd + 2))
      else None)"
    by (simp add: scale_checks_def below3_def)
  have later: "rest \<noteq> Inl (ValueError m)" for m
    unfolding rest_def by (rule computeFlucVec_no_later_ValueError)
  have fails: "computeFlucVec E s nMin qList nMax polOrd nStep revSeg = Inl (ValueError e)"
    if "first_failing (scale_checks N nMin M polOrd nStep) = Some e"
    using that unfolding code spec by (simp split: if_splits)
  have passes: "computeFlucVec E s nMin qList nMax polOrd nStep revSeg \<noteq> Inl (ValueError m)"
    if "first_failing (scale_checks N nMin M polOrd nStep) = None" for m
    using that later [of m] unfolding code spec by (simp split: if_splits)
  from fails passes show ?thesis
    unfolding M_def by blast
qed

theorem C6_witness:
  "computeFlucVec exact fresh16 2 (QFloat (Finite 2)) 1 0 0 False = Inl (ValueError PolOrdBelowOne)
   \<and> computeFlucVec exact fresh16 2 (QFloat (Finite 2)) 1 1 0 False = Inl (ValueError StepBelowOne)
   \<and> computeFlucVec exact fresh16 2 (QFloat (Finite 2)) 2 1 1 False = Inl (ValueError ScaleBelowThree)
   \<and> computeFlucVec exact fresh16 20 (QFloat (Finite 2)) 20 1 1 False
       = Inl (ValueError NMaxNotAboveNMin)
   \<and> computeFlucVec exact fresh16 3 (QFloat (Finite 2)) 20 2 1 False
       = Inl (ValueError NMaxAboveLength)
   \<and> computeFlucVec exact fresh16 3 (QFloat (Finite 2)) 4 2 1 False
       = Inl (ValueError (NMinBelowPolOrd 4))
   \<and> computeFlucVec exact fresh16 3 (QFloat (Finite 2)) (- 999) 1 1 False
       \<noteq> Inl (ValueError ScaleBelowThree)"
  using C6_validation_precedence [of 16 fresh16 2 1 0 0 PolOrdBelowOne exact "QFloat (Finite 2)" False]
        C6_validation_precedence [of 16 fresh16 2 1 1 0 StepBelowOne exact "QFloat (Finite 2)" False]
        C6_validation_precedence [of 16 fresh16 2 2 1 1 ScaleBelowThree exact "QFloat (Finite 2)" False]
        C6_validation_precedence [of 16 fresh16 20 20 1 1 NMaxNotAboveNMin exact "QFloat (Finite 2)" False]
        C6_validation_precedence [of 16 fresh16 3 20 2 1 NMaxAboveLength exact "QFloat (Finite 2)" False]
        C6_validation_precedence [of 16 fresh16 3 4 2 1 "NMinBelowPolOrd 4" exact "QFloat (Finite 2)" False]
        C6_validation_precedence [of 16 fresh16 3 "- 999" 1 1 _ exact "QFloat (Finite 2)" False]
  by (simp add: fresh16_def series16_def scale_checks_def nMax_used_def)

section \<open>A series without finite values\<close>

text \<open>
  C5, as the code has it. When every entry of the input is NaN, construction does not
  fail: it returns a session whose stored series is empty. Every later call of
  \<^verbatim>\<open>computeFlucVec\<close> on that session fails with a \<^verbatim>\<open>ValueError\<close>, whatever its
  arguments are.
\<close>

theorem C5_empty_series_is_constructed:
  assumes "\<forall>x\<in>set xs. isnan x"
  shows "MFDFA_init xs = Inr fresh_empty
       \<and> (\<forall>E nMin qList nMax polOrd nStep revSeg.
            \<exists>m. computeFlucVec E fresh_empty nMin qList nMax polOrd nStep revSeg
                   = Inl (ValueError m))"
proof
  from assms have "filter (\<lambda>x. \<not> isnan x) xs = []"
    by (simp add: filter_empty_conv)
  then show "MFDFA_init xs = Inr fresh_empty"
    by (simp add: MFDFA_init_def fresh_empty_def)
  show "\<forall>E nMin qList nMax polOrd nStep revSeg.
            \<exists>m. computeFlucVec E fresh_empty nMin qList nMax polOrd nStep revSeg
                   = Inl (ValueError m)"
    by (simp add: computeFlucVec_def fresh_empty_def Let_def)
qed

theorem C5_witness:
  "MFDFA_init [NaN, NaN, NaN] = Inr fresh_empty
   \<and> computeFlucVec exact fresh_empty 3 (QFloat (Finite 2)) (- 999) 1 1 False
       = Inl (ValueError ScaleBelowThree)
   \<and> computeFlucVec exact fresh_empty 3 (QFloat (Finite 2)) 4 1 1 False
       = Inl (ValueError NMaxAboveLength)"
  using C5_empty_series_is_constructed [of "[NaN, NaN, NaN]"]
  by (simp add: computeFlucVec_def fresh_empty_def)

text \<open>
  C5 as it is stated fails on the empty input and on an input of NaNs only:
  construction returns a session.
\<close>

theorem C5_counterexample:
  "MFDFA_init [] = Inr fresh_empty \<and> MFDFA_init [NaN, NaN, NaN] = Inr fresh_empty"
  by (simp add: MFDFA_init_def fresh_empty_def)

section \<open>The type of qList\<close>

text \<open>
  C8, where the code misses it. On a series of 16 values and with valid scales, a float,
  a list and a numpy array are accepted. Any other object reaches the last branch
  (line 134), which is written to raise \<^verbatim>\<open>ValueError\<close> but names \<^verbatim>\<open>q_list\<close>, a
  variable that does not exist: the call ends in \<^verbatim>\<open>NameError\<close>, for \<^verbatim>\<open>None\<close>, for an
  integer and for a tuple of reals alike.
\<close>

theorem C8_other_qList_raises_NameError:
  "computeFlucVec exact fresh16 3 QNone (- 999) 1 1 False = Inl (NameError ''q_list'')
   \<and> computeFlucVec exact fresh16 3 (QTuple [Finite 0, Finite 1, Finite 3]) (- 999) 1 1 False
       = Inl (NameError ''q_list'')
   \<and> computeFlucVec exact fresh16 3 (QInt 2) (- 999) 1 1 False = Inl (NameError ''q_list'')
   \<and> computeFlucVec exact fresh16 3 (QFloat (Finite 2)) (- 999) 1 1 False
       = Inr (computed16\<lparr>self_qList := Some [Finite 2], self_F := Some [[Finite 3, Finite 4]]\<rparr>,
              [3, 4], [[Finite 3, Finite 4]])
   \<and> computeFlucVec exact fresh16 3 (QList [Finite 0, Finite 1, Finite 3]) (- 999) 1 1 False
       = Inr (computed16, [3, 4],
              [[Finite 3, Finite 4], [Finite 3, Finite 4], [Finite 3, Finite 4]])
   \<and> computeFlucVec exact fresh16 3 (QNdarray [Finite 0, Finite 1, Finite 3]) (- 999) 1 1 False
       = Inr (computed16, [3, 4],
              [[Finite 3, Finite 4], [Finite 3, Finite 4], [Finite 3, Finite 4]])"
  by (simp add: computeFlucVec_def cy_computeFlucVec_def fresh16_def series16_def
        computed16_def fits_cint_def arange.simps exact_def window_size_def Let_def)

section \<open>The sentinel -999\<close>

lemma fitFlucVec_nStart_sentinel:
  assumes "self_n s = Some ns" and "ns \<noteq> []"
  shows "fitFlucVec E s (- 999) nEnd logBase verbose = fitFlucVec E s (hd ns) nEnd logBase verbose"
proof -
  from assms have first: "n_first (self_n s) = Inr (hd ns)"
    by (cases ns) (simp_all add: n_first_def)
  have "(if (- 999::int) = - 999 then n_first (self_n s) else Inr (- 999)) = Inr (hd ns)"
    using first by simp
  moreover have "(if hd ns = - 999 then n_first (self_n s) else Inr (hd ns)) = Inr (hd ns)"
    using first by simp
  ultimately show ?thesis
    unfolding fitFlucVec_def by (simp only:)
qed

lemma fitFlucVec_nEnd_sentinel:
  assumes "self_n s = Some ns" and "ns \<noteq> []"
  shows "fitFlucVec E s nStart (- 999) logBase verbose = fitFlucVec E s nStart (last ns) logBase verbose"
proof -
  from assms have lst: "n_last (self_n s) = Inr (last ns)"
    by (cases ns) (simp_all add: n_last_def)
  have "(if (- 999::int) = - 999 then n_last (self_n s) else Inr (- 999)) = Inr (last ns)"
    using lst by simp
  moreover have "(if last ns = - 999 then n_last (self_n s) else Inr (last ns)) = Inr (last ns)"
    using lst by simp
  ultimately show ?thesis
    unfolding fitFlucVec_def by (simp only:)
qed

text \<open>
  C10. Leaving \<open>nMax\<close> out of a call of \<^verbatim>\<open>computeFlucVec\<close>, passing -999 and passing
  \<open>floor(N / 4)\<close> all give the same result. In a session whose array of scales \<open>n\<close>
  is not empty, leaving \<open>nStart\<close> or \<open>nEnd\<close> out of a call of \<^verbatim>\<open>fitFlucVec\<close>,
  passing -999 and passing the first, respectively the last, scale all give the same
  result. So -999 is never taken as a window size.
\<close>

theorem C10_sentinel_is_the_default:
  "computeFlucVec_call E s nMin qList (Some (- 999)) polOrd nStep revSeg
     = computeFlucVec_call E s nMin qList None polOrd nStep revSeg
   \<and> computeFlucVec_call E s nMin qList None polOrd nStep revSeg
     = computeFlucVec_call E s nMin qList (Some (int (length (self_tsVec s)) div 4))
         polOrd nStep revSeg
   \<and> fitFlucVec_call E s (Some (- 999)) nEnd logBase verbose
     = fitFlucVec_call E s None nEnd logBase verbose
   \<and> fitFlucVec_call E s nStart (Some (- 999)) logBase verbose
     = fitFlucVec_call E s nStart None logBase verbose
   \<and> (self_n s = Some ns \<and> ns \<noteq> [] \<and> fits_cint (hd ns) \<and> fits_cint (last ns) \<longrightarrow>
        fitFlucVec_call E s None nEnd logBase verbose
          = fitFlucVec_call E s (Some (hd ns)) nEnd logBase verbose
      \<and> fitFlucVec_call E s nStart None logBase verbose
          = fitFlucVec_call E s nStart (Some (last ns)) logBase verbose)"
proof (intro conjI impI)
  show "computeFlucVec_call E s nMin qList (Some (- 999)) polOrd nStep revSeg
     = computeFlucVec_call E s nMin qList None polOrd nStep revSeg"
    by (simp add: computeFlucVec_call_def)
  have "0 \<le> int (length (self_tsVec s)) div 4"
    by (simp add: pos_imp_zdiv_nonneg_iff)
  then have "int (length (self_tsVec s)) div 4 \<noteq> - 999"
    by linarith
  then show "computeFlucVec_call E s nMin qList None polOrd nStep revSeg
     = computeFlucVec_call E s nMin qList (Some (int (length (self_tsVec s)) div 4))
         polOrd nStep revSeg"
    by (simp add: computeFlucVec_call_def computeFlucVec_def Let_def)
  show "fitFlucVec_call E s (Some (- 999)) nEnd logBase verbose
     = fitFlucVec_call E s None nEnd logBase verbose"
    by (simp add: fitFlucVec_call_def)
  show "fitFlucVec_call E s nStart (Some (- 999)) logBase verbose
     = fitFlucVec_call E s nStart None logBase verbose"
    by (simp add: fitFlucVec_call_def)
next
  assume h: "self_n s = Some ns \<and> ns \<noteq> [] \<and> fits_cint (hd ns) \<and> fits_cint (last ns)"
  have sentinel: "fits_cint (- 999)" by (simp add: fits_cint_def)
  from h sentinel show "fitFlucVec_call E s None nEnd logBase verbose
          = fitFlucVec_call E s (Some (hd ns)) nEnd logBase verbose"
    by (simp add: fitFlucVec_call_def Let_def fitFlucVec_nStart_sentinel [of s ns])
  from h sentinel show "fitFlucVec_call E s nStart None logBase verbose
          = fitFlucVec_call E s nStart (Some (last ns)) logBase verbose"
    by (simp add: fitFlucVec_call_def Let_def fitFlucVec_nEnd_sentinel [of s ns])
qed

theorem C10_witness:
  "computeFlucVec_call exact fresh16 3 (QList [Finite 0, Finite 1, Finite 3])
       (Some (- 999)) None None None
     = Inr (computed16, [3, 4],
            [[Finite 3, Finite 4], [Finite 3, Finite 4], [Finite 3, Finite 4]])
   \<and> computeFlucVec_call exact fresh16 3 (QList [Finite 0, Finite 1, Finite 3])
       (Some 4) None None None
     = Inr (computed16, [3, 4],
            [[Finite 3, Finite 4], [Finite 3, Finite 4], [Finite 3, Finite 4]])
   \<and> fitFlucVec_call exact computed16 (Some (- 999)) (Some 4) None None
     = Inr (fitted16,
            Some ([Finite 1, Finite 1, Finite 1], [Finite 0, Finite 0, Finite 0]), [])
   \<and> fitFlucVec_call exact computed16 (Some 3) (Some (- 999)) None None
     = Inr (fitted16,
            Some ([Finite 1, Finite 1, Finite 1], [Finite 0, Finite 0, Finite 0]), [])
   \<and> fitFlucVec_call exact computed16 None None None None
     = Inr (fitted16,
            Some ([Finite 1, Finite 1, Finite 1], [Finite 0, Finite 0, Finite 0]), [])"
proof -
  have omitted: "computeFlucVec_call exact fresh16 3 (QList [Finite 0, Finite 1, Finite 3])
       None None None None
     = Inr (computed16, [3, 4],
            [[Finite 3, Finite 4], [Finite 3, Finite 4], [Finite 3, Finite 4]])"
    using example_compute by (simp add: computeFlucVec_call_def)
  have given: "fitFlucVec_call exact computed16 (Some 3) (Some 4) None None
     = Inr (fitted16,
            Some ([Finite 1, Finite 1, Finite 1], [Finite 0, Finite 0, Finite 0]), [])"
    using example_fit by (simp add: fitFlucVec_call_def fits_cint_def exact_def)
  have scales: "self_n computed16 = Some [3, 4] \<and> [3, 4] \<noteq> ([] :: int list)
       \<and> fits_cint (hd [3, 4]) \<and> fits_cint (last [3, 4])"
    by (simp add: computed16_def fits_cint_def)
  have quarter: "int (length (self_tsVec fresh16)) div 4 = 4"
    by (simp add: fresh16_def series16_def)
  note compute = C10_sentinel_is_the_default
    [where E = exact and s = fresh16 and nMin = 3
       and qList = "QList [Finite 0, Finite 1, Finite 3]"
       and polOrd = None and nStep = None and revSeg = None]
  note fit_start = C10_sentinel_is_the_default
    [where E = exact and s = computed16 and ns = "[3, 4]" and nEnd = "Some 4"
       and logBase = None and verbose = None]
  note fit_end = C10_sentinel_is_the_default
    [where E = exact and s = computed16 and ns = "[3, 4]" and nStart = "Some 3"
       and logBase = None and verbose = None]
  note fit_both = C10_sentinel_is_the_default
    [where E = exact and s = computed16 and ns = "[3, 4]" and nStart = None
       and nEnd = "Some 4" and logBase = None and verbose = None]
  from compute omitted quarter
  have c1: "computeFlucVec_call exact fresh16 3 (QList [Finite 0, Finite 1, Finite 3])
       (Some (- 999)) None None None
     = Inr (computed16, [3, 4],
            [[Finite 3, Finite 4], [Finite 3, Finite 4], [Finite 3, Finite 4]])"
    and c2: "computeFlucVec_call exact fresh16 3 (QList [Finite 0, Finite 1, Finite 3])
       (Some 4) None None None
     = Inr (computed16, [3, 4],
            [[Finite 3, Finite 4], [Finite 3, Finite 4], [Finite 3, Finite 4]])"
    by simp_all
  from fit_start scales given
  have f1: "fitFlucVec_call exact computed16 (Some (- 999)) (Some 4) None None
     = Inr (fitted16,
            Some ([Finite 1, Finite 1, Finite 1], [Finite 0, Finite 0, Finite 0]), [])"
    by simp
  from fit_end scales given
  have f2: "fitFlucVec_call exact computed16 (Some 3) (Some (- 999)) None None
     = Inr (fitted16,
            Some ([Finite 1, Finite 1, Finite 1], [Finite 0, Finite 0, Finite 0]), [])"
    by simp
  from fit_both scales f1
  have f3: "fitFlucVec_call exact computed16 None None None None
     = Inr (fitted16,
            Some ([Finite 1, Finite 1, Finite 1], [Finite 0, Finite 0, Finite 0]), [])"
    by simp
  from c1 c2 f1 f2 f3 show ?thesis by blast
qed

section \<open>The scales\<close>

text \<open>With a positive step, \<open>arange\<close> is an arithmetic progression of known length.\<close>

lemma arange_closed_form:
  assumes "0 < step"
  shows "arange start stop step
           = map (\<lambda>k. start + int k * step) [0..<nat (- ((start - stop) div step))]"
  using assms
proof (induction start stop step rule: arange.induct)
  case (1 start stop step)
  show ?case
  proof (cases "start < stop")
    case True
    have quot: "(start - stop) div step = (start + step - stop) div step - 1"
    proof -
      have "start + step - stop = (start - stop) + step" by simp
      then have "(start + step - stop) div step = (start - stop) div step + 1"
        using "1.prems" by (simp only: div_add_self2)
      then show ?thesis by simp
    qed
    have "(start + step - stop) div step \<le> (step - 1) div step"
      using True "1.prems" by (intro zdiv_mono1) simp_all
    moreover have "(step - 1) div step = 0"
      using "1.prems" by (simp add: div_pos_pos_trivial)
    ultimately have "(start + step - stop) div step \<le> 0"
      by simp
    then have len: "nat (- ((start - stop) div step))
                      = Suc (nat (- ((start + step - stop) div step)))"
      unfolding quot by simp
    have "arange start stop step = start # arange (start + step) stop step"
      using True "1.prems" by (simp add: arange.simps [of start])
    also have "arange (start + step) stop step
                 = map (\<lambda>k. start + step + int k * step)
                     [0..<nat (- ((start + step - stop) div step))]"
      using "1.IH"(1) True "1.prems" by simp
    finally show ?thesis
      unfolding len map_upt_Suc by (simp add: algebra_simps)
  next
    case False
    then have "0 \<le> (start - stop) div step"
      using "1.prems" by (simp add: pos_imp_zdiv_nonneg_iff)
    then show ?thesis
      using False "1.prems" by (simp add: arange.simps [of start])
  qed
qed

lemma arange_bounds:
  assumes "0 < step" and "x \<in> set (arange start stop step)"
  shows "start \<le> x \<and> x < stop"
  using assms
proof (induction start stop step rule: arange.induct)
  case (1 start stop step)
  show ?case
  proof (cases "start < stop")
    case True
    with "1.prems" have "x = start \<or> x \<in> set (arange (start + step) stop step)"
      by (simp add: arange.simps [of start])
    then show ?thesis
    proof
      assume "x = start"
      with True show ?thesis by simp
    next
      assume "x \<in> set (arange (start + step) stop step)"
      with "1.IH"(1) True "1.prems"(1) have "start + step \<le> x \<and> x < stop"
        by simp
      with "1.prems"(1) show ?thesis by simp
    qed
  next
    case False
    with "1.prems" show ?thesis
      by (simp add: arange.simps [of start])
  qed
qed

lemma arange_length:
  assumes "0 < step" and "start < stop"
  shows "int (length (arange start stop step))
           = \<lceil>real_of_int (stop - start) / real_of_int step\<rceil>"
proof -
  have "start - stop < 0" using assms by simp
  then have "(start - stop) div step < 0"
    using assms(1) by (simp add: pos_imp_zdiv_neg_iff)
  then have "int (length (arange start stop step)) = - ((start - stop) div step)"
    using assms(1) by (simp add: arange_closed_form)
  also have "\<dots> = \<lceil>real_of_int (stop - start) / real_of_int step\<rceil>"
    unfolding ceiling_divide_eq_div by simp
  finally show ?thesis .
qed

lemma arange_sorted:
  assumes "0 < step"
  shows "sorted_wrt (<) (arange start stop step)"
proof -
  have "sorted_wrt (\<lambda>i j. start + int i * step < start + int j * step) [0..<n]" for n
    using assms by (intro sorted_wrt_mono_rel [OF _ sorted_wrt_upt]) simp
  then show ?thesis
    using assms by (simp add: arange_closed_form sorted_wrt_map)
qed

lemma arange_step:
  assumes "0 < step" and "Suc i < length (arange start stop step)"
  shows "arange start stop step ! Suc i = arange start stop step ! i + step"
  using assms by (simp add: arange_closed_form algebra_simps)

lemma arange_first:
  assumes "0 < step" and "start < stop"
  shows "arange start stop step \<noteq> [] \<and> hd (arange start stop step) = start"
  using assms by (simp add: arange.simps [of start])

text \<open>What a successful call of \<^verbatim>\<open>computeFlucVec\<close> has checked, and what it returns.\<close>

lemma computeFlucVec_Inr:
  assumes "computeFlucVec E s nMin qList nMax polOrd nStep revSeg = Inr (s', ns, Fm)"
    and "N = int (length (self_tsVec s))" and "M = nMax_used N nMax"
  shows "1 \<le> polOrd \<and> 1 \<le> nStep \<and> 3 \<le> nMin \<and> nMin < M \<and> M \<le> N \<and> polOrd + 2 \<le> nMin"
    and "ns = arange nMin (M + 1) nStep"
    and "\<exists>qs. qList_array qList = Inr qs
           \<and> Fm = map (\<lambda>q. map (\<lambda>w. (if revSeg then flucMFDFAForwBackwCompute E
                                        else flucMFDFAForwCompute E)
                                         (self_tsVec s) w q N polOrd) ns) qs
           \<and> s' = s\<lparr>self_qList := Some qs, self_nStep := nStep, self_n := Some ns,
                     self_F := Some Fm, self_isComputed := True\<rparr>"
  using assms(1) unfolding assms(2,3)
  by (auto simp: computeFlucVec_def cy_computeFlucVec_def nMax_used_def Let_def
           split: if_splits sum.splits)

text \<open>
  C7. Whenever \<^verbatim>\<open>computeFlucVec\<close> returns, the array of scales it returns and stores
  begins with \<open>nMin\<close>, goes up by \<open>nStep\<close> from each entry to the next, is strictly
  increasing, lies within \<open>nMin\<close> and \<open>nMax\<close>, and has \<open>ceil((nMax - nMin + 1) / nStep)\<close>
  entries; \<open>nMax\<close> is the value the checks are made on (\<open>floor(N / 4)\<close> when it
  was left out). And it does return for all valid scale parameters, when \<open>qList\<close> is of
  an accepted type and the numbers fit a C int.
\<close>

theorem C7_scale_set:
  assumes "N = int (length (self_tsVec s))" and "M = nMax_used N nMax"
  shows "(computeFlucVec E s nMin qList nMax polOrd nStep revSeg = Inr (s', ns, Fm) \<longrightarrow>
            self_n s' = Some ns \<and> ns \<noteq> [] \<and> hd ns = nMin
          \<and> sorted_wrt (<) ns
          \<and> (\<forall>k\<in>set ns. nMin \<le> k \<and> k \<le> M)
          \<and> (\<forall>i. Suc i < length ns \<longrightarrow> ns ! Suc i = ns ! i + nStep)
          \<and> int (length ns) = \<lceil>real_of_int (M - nMin + 1) / real_of_int nStep\<rceil>)
       \<and> (first_failing (scale_checks N nMin M polOrd nStep) = None
            \<and> N < 2 ^ 31 - 1 \<and> nStep < 2 ^ 31 \<and> qList_array qList = Inr qs \<longrightarrow>
            (\<exists>t vecn mtxf.
               computeFlucVec E s nMin qList nMax polOrd nStep revSeg = Inr (t, vecn, mtxf)))"
proof (intro conjI impI)
  assume ret: "computeFlucVec E s nMin qList nMax polOrd nStep revSeg = Inr (s', ns, Fm)"
  note facts = computeFlucVec_Inr [OF ret assms]
  from facts(1) have step: "0 < nStep" and range: "nMin < M + 1"
    by simp_all
  from facts(3) show "self_n s' = Some ns" by auto
  from arange_first [OF step range] show "ns \<noteq> []" and "hd ns = nMin"
    unfolding facts(2) by simp_all
  from arange_sorted [OF step] show "sorted_wrt (<) ns"
    unfolding facts(2) .
  show "\<forall>k\<in>set ns. nMin \<le> k \<and> k \<le> M"
  proof
    fix k assume "k \<in> set ns"
    with arange_bounds [OF step, of k nMin "M + 1"] show "nMin \<le> k \<and> k \<le> M"
      unfolding facts(2) by simp
  qed
  show "\<forall>i. Suc i < length ns \<longrightarrow> ns ! Suc i = ns ! i + nStep"
    unfolding facts(2) using arange_step [OF step] by blast
  from arange_length [OF step range]
  show "int (length ns) = \<lceil>real_of_int (M - nMin + 1) / real_of_int nStep\<rceil>"
    unfolding facts(2) by (simp add: algebra_simps)
next
  assume valid: "first_failing (scale_checks N nMin M polOrd nStep) = None
            \<and> N < 2 ^ 31 - 1 \<and> nStep < 2 ^ 31 \<and> qList_array qList = Inr qs"
  then have checks: "\<not> polOrd < 1" "\<not> nStep < 1" "\<not> (M < 3 \<or> nMin < 3)" "\<not> M \<le> nMin"
      "\<not> M > N" "\<not> nMin < polOrd + 2"
    by (simp_all add: scale_checks_def split: if_splits)
  with valid have fits: "fits_cint N" "fits_cint nMin" "fits_cint M" "fits_cint polOrd"
      "fits_cint nStep" "fits_cint (M + 1)"
    by (simp_all add: fits_cint_def)
  from valid checks fits
  show "\<exists>t vecn mtxf.
          computeFlucVec E s nMin qList nMax polOrd nStep revSeg = Inr (t, vecn, mtxf)"
    unfolding assms
    by (simp add: computeFlucVec_def cy_computeFlucVec_def nMax_used_def Let_def)
qed

theorem C7_witness:
  "\<exists>t. computeFlucVec exact fresh16 3 (QFloat (Finite 2)) 10 1 3 False
         = Inr (t, [3, 6, 9], [[Finite 3, Finite 6, Finite 9]])
       \<and> self_n t = Some [3, 6, 9]
       \<and> int (length [3, 6, 9 :: int]) = \<lceil>real_of_int (10 - 3 + 1) / real_of_int 3\<rceil>"
proof -
  have run: "\<exists>t. computeFlucVec exact fresh16 3 (QFloat (Finite 2)) 10 1 3 False
               = Inr (t, [3, 6, 9], [[Finite 3, Finite 6, Finite 9]])"
    by (simp add: computeFlucVec_def cy_computeFlucVec_def fresh16_def series16_def
          fits_cint_def arange.simps exact_def window_size_def Let_def)
  then obtain t where t: "computeFlucVec exact fresh16 3 (QFloat (Finite 2)) 10 1 3 False
               = Inr (t, [3, 6, 9], [[Finite 3, Finite 6, Finite 9]])" ..
  have "16 = int (length (self_tsVec fresh16))" and "10 = nMax_used 16 10"
    by (simp_all add: fresh16_def series16_def nMax_used_def)
  from C7_scale_set [OF this, of exact 3 "QFloat (Finite 2)" 1 3 False t "[3, 6, 9]"
                       "[[Finite 3, Finite 6, Finite 9]]"] t
  show ?thesis by auto
qed

section \<open>The fit\<close>

lemma py_int_quot_nonneg:
  assumes "0 \<le> a" and "0 < b"
  shows "py_int_quot a b = Inr (a div b)"
proof (cases "a = 0")
  case True
  with assms show ?thesis by (simp add: py_int_quot_def)
next
  case False
  with assms have "sgn a = 1" "sgn b = 1" "\<bar>a\<bar> = a" "\<bar>b\<bar> = b"
    by simp_all
  with assms show ?thesis by (simp add: py_int_quot_def)
qed

lemma py_slice_nat:
  assumes "Suc j \<le> length xs"
  shows "py_slice xs (int i) (int j + 1) = drop i (take (Suc j) xs)"
proof -
  have hi: "nat (int j + 1) = Suc j"
    by (simp add: nat_add_distrib)
  have "py_slice xs (int i) (int j + 1)
          = drop (nat (min (int i) (int (length xs)))) (take (Suc j) xs)"
    using assms by (simp add: py_slice_def Let_def min_def hi)
  also have "\<dots> = drop i (take (Suc j) xs)"
    by (cases "i \<le> length xs") (simp_all add: min_def)
  finally show ?thesis .
qed

text \<open>
  In a list whose keys increase strictly, the entries whose key lies between the keys at
  two positions are the entries between the two positions.
\<close>

lemma filter_between_keys:
  fixes key :: "'z \<Rightarrow> int"
  assumes sorted: "sorted_wrt (<) (map key zs)"
    and le: "i0 \<le> i1" and len: "i1 < length zs"
  shows "filter (\<lambda>z. key (zs ! i0) \<le> key z \<and> key z \<le> key (zs ! i1)) zs
           = drop i0 (take (Suc i1) zs)"
proof -
  let ?P = "\<lambda>z. key (zs ! i0) \<le> key z \<and> key z \<le> key (zs ! i1)"
  have less: "key (zs ! i) < key (zs ! j)" if "i < j" "j < length zs" for i j
    using sorted_wrt_nth_less [OF sorted, of i j] that by simp
  have leq: "key (zs ! i) \<le> key (zs ! j)" if "i \<le> j" "j < length zs" for i j
    using less [of i j] that by (cases "i = j") auto
  have split: "zs = take i0 zs @ drop i0 (take (Suc i1) zs) @ drop (Suc i1) zs"
  proof -
    have "take (Suc i1) zs = take i0 (take (Suc i1) zs) @ drop i0 (take (Suc i1) zs)"
      by (simp only: append_take_drop_id)
    also have "take i0 (take (Suc i1) zs) = take i0 zs"
      using le by (simp add: min_def)
    finally have "take (Suc i1) zs @ drop (Suc i1) zs
                    = (take i0 zs @ drop i0 (take (Suc i1) zs)) @ drop (Suc i1) zs"
      by (simp only:)
    then show ?thesis by (simp only: append_take_drop_id append_assoc)
  qed
  have before: "filter ?P (take i0 zs) = []"
  proof -
    have "\<not> ?P z" if "z \<in> set (take i0 zs)" for z
    proof -
      from that obtain j where "j < i0" "j < length zs" "z = zs ! j"
        by (auto simp: in_set_conv_nth)
      with less [of j i0] le len show ?thesis by auto
    qed
    then show ?thesis by (simp add: filter_empty_conv)
  qed
  have middle: "filter ?P (drop i0 (take (Suc i1) zs)) = drop i0 (take (Suc i1) zs)"
  proof -
    have "?P z" if "z \<in> set (drop i0 (take (Suc i1) zs))" for z
    proof -
      from that obtain j where "j < Suc i1 - i0" "z = zs ! (i0 + j)"
        using len by (auto simp: in_set_conv_nth)
      with leq [of i0 "i0 + j"] leq [of "i0 + j" i1] le len show ?thesis by auto
    qed
    then show ?thesis by (simp add: filter_id_conv)
  qed
  have after: "filter ?P (drop (Suc i1) zs) = []"
  proof -
    have "\<not> ?P z" if "z \<in> set (drop (Suc i1) zs)" for z
    proof -
      from that obtain j where j: "j < length zs - Suc i1" "z = zs ! (Suc i1 + j)"
        by (auto simp: in_set_conv_nth)
      then have "Suc i1 + j < length zs" by arith
      with j less [of i1 "Suc i1 + j"] show ?thesis by auto
    qed
    then show ?thesis by (simp add: filter_empty_conv)
  qed
  have "filter ?P zs
          = filter ?P (take i0 zs) @ filter ?P (drop i0 (take (Suc i1) zs))
              @ filter ?P (drop (Suc i1) zs)"
    by (subst split) (simp only: filter_append)
  with before middle after show ?thesis by simp
qed

lemma fold_update_upt:
  assumes "k \<le> length xs"
  shows "fold (\<lambda>i ys. ys[i := h i]) [0..<k] xs = map h [0..<k] @ drop k xs"
  using assms
proof (induction k)
  case 0
  show ?case by simp
next
  case (Suc k)
  then have "fold (\<lambda>i ys. ys[i := h i]) [0..<Suc k] xs = (map h [0..<k] @ drop k xs)[k := h k]"
    by simp
  also have "\<dots> = map h [0..<k] @ (drop k xs)[0 := h k]"
    by (simp add: list_update_append)
  also have "drop k xs = xs ! k # drop (Suc k) xs"
    using Suc.prems by (simp add: Cons_nth_drop_Suc)
  finally show ?case by simp
qed

lemma fit_loop_run:
  assumes "\<forall>i\<in>set idxs. i < length Fm
             \<and> polyfit E (map (\<lambda>k. log_b E lb (float_of_int k)) (py_slice ns st (en + 1)))
                         (map (log_b E lb) (py_slice (Fm ! i) st (en + 1))) = Inr (h i, c i)"
  shows "fit_loop E lb v ns (Some Fm) qs st en idxs (H0, I0, out0)
           = Inr (fold (\<lambda>i ys. ys[i := h i]) idxs H0, fold (\<lambda>i ys. ys[i := c i]) idxs I0,
                  out0 @ (if v then map (\<lambda>i. FitResult (qs ! i) (c i) (h i)) idxs else []))"
  using assms
proof (induction idxs arbitrary: H0 I0 out0)
  case Nil
  show ?case by simp
next
  case (Cons i rest)
  from Cons.prems have here: "i < length Fm"
      "polyfit E (map (\<lambda>k. log_b E lb (float_of_int k)) (py_slice ns st (en + 1)))
                 (map (log_b E lb) (py_slice (Fm ! i) st (en + 1))) = Inr (h i, c i)"
    and rest: "\<forall>i\<in>set rest. i < length Fm
             \<and> polyfit E (map (\<lambda>k. log_b E lb (float_of_int k)) (py_slice ns st (en + 1)))
                         (map (log_b E lb) (py_slice (Fm ! i) st (en + 1))) = Inr (h i, c i)"
    by simp_all
  show ?case
    using here Cons.IH [OF rest] by simp
qed

lemma fit_loop_raise:
  assumes "\<forall>i\<in>set pre. i < length Fm
             \<and> polyfit E (map (\<lambda>k. log_b E lb (float_of_int k)) (py_slice ns st (en + 1)))
                         (map (log_b E lb) (py_slice (Fm ! i) st (en + 1))) = Inr (h i, c i)"
    and "k < length Fm"
    and "polyfit E (map (\<lambda>k. log_b E lb (float_of_int k)) (py_slice ns st (en + 1)))
                   (map (log_b E lb) (py_slice (Fm ! k) st (en + 1))) = Inl e"
  shows "fit_loop E lb v ns (Some Fm) qs st en (pre @ k # post) (H0, I0, out0)
           = Inl (e, fold (\<lambda>i ys. ys[i := h i]) pre H0,
                  out0 @ (if v then map (\<lambda>i. FitResult (qs ! i) (c i) (h i)) pre else []))"
  using assms(1)
proof (induction pre arbitrary: H0 I0 out0)
  case Nil
  from assms(2,3) show ?case by simp
next
  case (Cons i rest)
  from Cons.prems have here: "i < length Fm"
      "polyfit E (map (\<lambda>k. log_b E lb (float_of_int k)) (py_slice ns st (en + 1)))
                 (map (log_b E lb) (py_slice (Fm ! i) st (en + 1))) = Inr (h i, c i)"
    and rest: "\<forall>i\<in>set rest. i < length Fm
             \<and> polyfit E (map (\<lambda>k. log_b E lb (float_of_int k)) (py_slice ns st (en + 1)))
                         (map (log_b E lb) (py_slice (Fm ! i) st (en + 1))) = Inr (h i, c i)"
    by simp_all
  show ?case
    using here Cons.IH [OF rest] by simp
qed

lemma slice_is_range:
  fixes key :: "'z \<Rightarrow> int"
  assumes "sorted_wrt (<) (map key zs)" and "i0 \<le> i1" and "i1 < length zs"
  shows "py_slice zs (int i0) (int i1 + 1)
           = filter (\<lambda>z. key (zs ! i0) \<le> key z \<and> key z \<le> key (zs ! i1)) zs"
  using assms by (simp add: py_slice_nat filter_between_keys)

lemma log_scales_slice:
  assumes "sorted_wrt (<) ns" and "i0 \<le> i1" and "i1 < length ns"
  shows "map (\<lambda>k. log_b E lb (float_of_int k)) (py_slice ns (int i0) (int i1 + 1))
           = log_scales E lb ns (ns ! i0) (ns ! i1)"
  using slice_is_range [of "\<lambda>k. k" ns i0 i1] assms
  by (simp add: log_scales_def log_in_base_def log_b_def float_of_int_def)

lemma log_fluctuations_slice:
  assumes "sorted_wrt (<) ns" and "i0 \<le> i1" and "i1 < length ns" and "length row = length ns"
  shows "map (log_b E lb) (py_slice row (int i0) (int i1 + 1))
           = log_fluctuations E lb ns row (ns ! i0) (ns ! i1)"
proof -
  have keys: "map fst (zip ns row) = ns"
    using assms(4) by (simp add: map_fst_zip)
  have "filter (\<lambda>(k, f). ns ! i0 \<le> k \<and> k \<le> ns ! i1) (zip ns row)
          = filter (\<lambda>z. fst (zip ns row ! i0) \<le> fst z \<and> fst z \<le> fst (zip ns row ! i1))
              (zip ns row)"
    using assms by (simp add: case_prod_unfold)
  also have "\<dots> = drop i0 (take (Suc i1) (zip ns row))"
    using assms by (intro filter_between_keys) (simp_all add: keys)
  also have "\<dots> = zip (drop i0 (take (Suc i1) ns)) (drop i0 (take (Suc i1) row))"
    by (simp add: take_zip drop_zip)
  finally have "log_fluctuations E lb ns row (ns ! i0) (ns ! i1)
                  = map (\<lambda>(k, f). log_b E lb f)
                      (zip (drop i0 (take (Suc i1) ns)) (drop i0 (take (Suc i1) row)))"
    by (simp add: log_fluctuations_def log_in_base_def log_b_def)
  also have "\<dots> = map (log_b E lb) (map snd
                      (zip (drop i0 (take (Suc i1) ns)) (drop i0 (take (Suc i1) row))))"
    by (simp add: case_prod_unfold comp_def)
  also have "\<dots> = map (log_b E lb) (drop i0 (take (Suc i1) row))"
    using assms(4) by (simp add: map_snd_zip)
  finally show ?thesis
    using assms by (simp add: py_slice_nat)
qed

text \<open>\<^verbatim>\<open>fitFlucVec\<close> in a session that has scales and q-orders, as one chain of tests.\<close>

lemma fitFlucVec_computed:
  assumes "self_isComputed s" and "self_n s = Some ns" and "ns \<noteq> []"
    and "self_qList s = Some qs"
    and "a = (if nStart = - 999 then hd ns else nStart)"
    and "b = (if nEnd = - 999 then last ns else nEnd)"
  shows "fitFlucVec E s nStart nEnd logBase verbose =
     (if a > b then Inl (ValueError NEndBelowNStart, s, [])
      else if a < hd ns \<or> b > last ns
      then Inl (ValueError (FitLimitsOutside (hd ns) (last ns)), s, [])
      else if a \<notin> set ns \<or> b \<notin> set ns then Inl (ValueError FitLimitsNotInN, s, [])
      else
        (case py_int_quot (a - hd ns) (self_nStep s) of
           Inl e \<Rightarrow> Inl (e, s, [])
         | Inr start \<Rightarrow>
        (case py_int_quot (b - hd ns) (self_nStep s) of
           Inl e \<Rightarrow> Inl (e, s, [])
         | Inr end' \<Rightarrow>
        (case fit_loop E logBase verbose ns (self_F s) qs start end' [0..<length qs]
                (replicate (length qs) (Finite 0), replicate (length qs) (Finite 0),
                 if verbose then [FitLimits a b] else []) of
           Inl (e, listH, out) \<Rightarrow> Inl (e, s\<lparr>self_listH := Some listH\<rparr>, out)
         | Inr (listH, list_H_intercept, out) \<Rightarrow>
             Inr (s\<lparr>self_listH := Some listH\<rparr>, Some (listH, list_H_intercept), out)))))"
proof -
  from assms(2,3) have first: "n_first (self_n s) = Inr (hd ns)"
    and lst: "n_last (self_n s) = Inr (last ns)"
    by (cases ns; simp add: n_first_def n_last_def)+
  have start: "(if nStart = - 999 then n_first (self_n s) else Inr nStart) = Inr a"
    using first assms(5) by simp
  have stop: "(if nEnd = - 999 then n_last (self_n s) else Inr nEnd) = Inr b"
    using lst assms(6) by simp
  show ?thesis
    unfolding fitFlucVec_def start stop
    by (simp only: sum.case first lst first [unfolded assms(2)] lst [unfolded assms(2)]
          assms(1) assms(2) assms(4) option.case if_True)
qed

text \<open>
  Under \<open>exact\<close> the logarithm in a base is the logarithm of the reals in that
  base, for a positive number and a positive base other than 1.
\<close>

lemma log_in_base_exact:
  assumes "0 < x" and "0 < b" and "b \<noteq> 1"
  shows "log_in_base exact (Finite b) (Finite x) = Finite (log b x)"
  using assms by (simp add: log_in_base_def exact_def log_def)

text \<open>
  \<^verbatim>\<open>fitFlucVec\<close> on a session that \<^verbatim>\<open>computeFlucVec\<close> has returned: the limits it
  refuses, the points it fits, what it returns and what it leaves when a fit raises.
\<close>

lemma fitFlucVec_after_compute:
  assumes "computeFlucVec E s0 nMin qList nMax polOrd nStep revSeg = Inr (s, ns, Fm)"
    and "self_qList s = Some qs"
    and "a = (if nStart = - 999 then hd ns else nStart)"
    and "b = (if nEnd = - 999 then last ns else nEnd)"
  shows "fitFlucVec_call E s None None (Some logBase) (Some verbose)
           = fitFlucVec E s (hd ns) (last ns) (c_float E logBase) verbose
     \<and> (\<not> fit_range_valid ns a b \<longrightarrow>
          (\<exists>m. fitFlucVec E s nStart nEnd logBase verbose = Inl (ValueError m, s, [])))
     \<and> (fit_range_valid ns a b \<longrightarrow>
          (length H = length qs \<and> length I = length qs
             \<and> (\<forall>i<length qs.
                   polyfit E (log_scales E logBase ns a b)
                     (log_fluctuations E logBase ns (Fm ! i) a b) = Inr (H ! i, I ! i)) \<longrightarrow>
           fitFlucVec E s nStart nEnd logBase verbose
             = Inr (s\<lparr>self_listH := Some H\<rparr>, Some (H, I),
                    if verbose
                    then FitLimits a b # map (\<lambda>i. FitResult (qs ! i) (I ! i) (H ! i)) [0..<length qs]
                    else []))
        \<and> (k < length qs
             \<and> (\<forall>i<k. polyfit E (log_scales E logBase ns a b)
                          (log_fluctuations E logBase ns (Fm ! i) a b) = Inr (h i, c i))
             \<and> polyfit E (log_scales E logBase ns a b)
                  (log_fluctuations E logBase ns (Fm ! k) a b) = Inl e \<longrightarrow>
           fitFlucVec E s nStart nEnd logBase verbose
             = Inl (e,
                    s\<lparr>self_listH := Some (map h [0..<k] @ replicate (length qs - k) (Finite 0))\<rparr>,
                    if verbose
                    then FitLimits a b # map (\<lambda>i. FitResult (qs ! i) (c i) (h i)) [0..<k]
                    else [])))"
proof -
  define N where "N = int (length (self_tsVec s0))"
  define M where "M = nMax_used N nMax"
  note facts = computeFlucVec_Inr [OF assms(1) N_def M_def]
  from facts(1) have step: "0 < nStep" and range: "nMin < M + 1"
    by simp_all
  from facts(3) assms(2) have st: "self_isComputed s" "self_n s = Some ns" "self_F s = Some Fm"
      "self_nStep s = nStep"
    and Fm: "Fm = map (\<lambda>q. map (\<lambda>w. (if revSeg then flucMFDFAForwBackwCompute E
                                        else flucMFDFAForwCompute E)
                                         (self_tsVec s0) w q N polOrd) ns) qs"
    by auto
  have rows: "length Fm = length qs" and cols: "length (Fm ! i) = length ns" if "i < length qs" for i
    using that by (simp_all add: Fm)
  have lenF: "length Fm = length qs"
    by (simp add: Fm)
  from arange_first [OF step range] have ne: "ns \<noteq> []" and hd: "hd ns = nMin"
    unfolding facts(2) by simp_all
  from arange_sorted [OF step] have sorted: "sorted_wrt (<) ns"
    unfolding facts(2) .
  have nth: "ns ! i = nMin + int i * nStep" if "i < length ns" for i
    using that step unfolding facts(2) by (simp add: arange_closed_form)
  note code = fitFlucVec_computed [OF st(1,2) ne assms(2,3,4), of E logBase verbose]

  have defaults: "fitFlucVec_call E s None None (Some logBase) (Some verbose)
           = fitFlucVec E s (hd ns) (last ns) (c_float E logBase) verbose"
    using fitFlucVec_nStart_sentinel [OF st(2) ne, of E "- 999" "c_float E logBase" verbose]
          fitFlucVec_nEnd_sentinel [OF st(2) ne, of E "hd ns" "c_float E logBase" verbose]
    by (simp add: fitFlucVec_call_def fits_cint_def)

  have invalid: "\<exists>m. fitFlucVec E s nStart nEnd logBase verbose = Inl (ValueError m, s, [])"
    if "\<not> fit_range_valid ns a b"
  proof -
    from that consider "a > b" | "\<not> a > b" "a < hd ns \<or> b > last ns"
      | "\<not> a > b" "\<not> (a < hd ns \<or> b > last ns)" "a \<notin> set ns \<or> b \<notin> set ns"
      unfolding fit_range_valid_def by fastforce
    then show ?thesis
      by cases (simp_all only: code if_True if_False, blast+)
  qed

  have valid: "(length H = length qs \<and> length I = length qs
             \<and> (\<forall>i<length qs.
                   polyfit E (log_scales E logBase ns a b)
                     (log_fluctuations E logBase ns (Fm ! i) a b) = Inr (H ! i, I ! i)) \<longrightarrow>
           fitFlucVec E s nStart nEnd logBase verbose
             = Inr (s\<lparr>self_listH := Some H\<rparr>, Some (H, I),
                    if verbose
                    then FitLimits a b # map (\<lambda>i. FitResult (qs ! i) (I ! i) (H ! i)) [0..<length qs]
                    else []))
        \<and> (k < length qs
             \<and> (\<forall>i<k. polyfit E (log_scales E logBase ns a b)
                          (log_fluctuations E logBase ns (Fm ! i) a b) = Inr (h i, c i))
             \<and> polyfit E (log_scales E logBase ns a b)
                  (log_fluctuations E logBase ns (Fm ! k) a b) = Inl e \<longrightarrow>
           fitFlucVec E s nStart nEnd logBase verbose
             = Inl (e,
                    s\<lparr>self_listH := Some (map h [0..<k] @ replicate (length qs - k) (Finite 0))\<rparr>,
                    if verbose
                    then FitLimits a b # map (\<lambda>i. FitResult (qs ! i) (c i) (h i)) [0..<k]
                    else []))"
    if ok: "fit_range_valid ns a b"
  proof -
    from ok obtain i0 i1 where i0: "i0 < length ns" "ns ! i0 = a"
      and i1: "i1 < length ns" "ns ! i1 = b"
      unfolding fit_range_valid_def by (auto simp: in_set_conv_nth)
    have le: "i0 \<le> i1"
    proof (rule ccontr)
      assume "\<not> i0 \<le> i1"
      then have "i1 < i0" by simp
      from sorted_wrt_nth_less [OF sorted this i0(1)] i0(2) i1(2) have "b < a" by simp
      with ok show False unfolding fit_range_valid_def by simp
    qed
    have start: "py_int_quot (a - hd ns) (self_nStep s) = Inr (int i0)"
      using step nth [OF i0(1)] i0(2)
      by (simp add: py_int_quot_nonneg hd st(4))
    have stop: "py_int_quot (b - hd ns) (self_nStep s) = Inr (int i1)"
      using step nth [OF i1(1)] i1(2)
      by (simp add: py_int_quot_nonneg hd st(4))
    have xs: "map (\<lambda>k. log_b E logBase (float_of_int k)) (py_slice ns (int i0) (int i1 + 1))
                = log_scales E logBase ns a b"
      using log_scales_slice [OF sorted le i1(1), of E logBase] i0(2) i1(2) by simp
    have ys: "map (log_b E logBase) (py_slice (Fm ! i) (int i0) (int i1 + 1))
                = log_fluctuations E logBase ns (Fm ! i) a b" if "i < length qs" for i
      using log_fluctuations_slice [OF sorted le i1(1) cols [OF that], of E logBase] i0(2) i1(2)
      by simp
    have pass: "\<not> a > b" "\<not> (a < hd ns \<or> b > last ns)" "\<not> (a \<notin> set ns \<or> b \<notin> set ns)"
      using ok unfolding fit_range_valid_def by auto
    have code': "fitFlucVec E s nStart nEnd logBase verbose =
        (case fit_loop E logBase verbose ns (Some Fm) qs (int i0) (int i1) [0..<length qs]
                (replicate (length qs) (Finite 0), replicate (length qs) (Finite 0),
                 if verbose then [FitLimits a b] else []) of
           Inl (e, listH, out) \<Rightarrow> Inl (e, s\<lparr>self_listH := Some listH\<rparr>, out)
         | Inr (listH, list_H_intercept, out) \<Rightarrow>
             Inr (s\<lparr>self_listH := Some listH\<rparr>, Some (listH, list_H_intercept), out))"
      unfolding code using pass by (simp add: start stop st(3))
    show ?thesis
    proof (intro conjI impI)
      assume fits: "length H = length qs \<and> length I = length qs
             \<and> (\<forall>i<length qs.
                   polyfit E (log_scales E logBase ns a b)
                     (log_fluctuations E logBase ns (Fm ! i) a b) = Inr (H ! i, I ! i))"
      then have each: "\<forall>i\<in>set [0..<length qs]. i < length Fm
             \<and> polyfit E (map (\<lambda>k. log_b E logBase (float_of_int k))
                            (py_slice ns (int i0) (int i1 + 1)))
                         (map (log_b E logBase) (py_slice (Fm ! i) (int i0) (int i1 + 1)))
                 = Inr (H ! i, I ! i)"
        using xs ys lenF by simp
      have all: "fold (\<lambda>i ys. ys[i := xs ! i]) [0..<length qs] (replicate (length qs) (Finite 0))
                   = xs" if "length xs = length qs" for xs :: "float64 list"
      proof -
        have "fold (\<lambda>i ys. ys[i := xs ! i]) [0..<length qs] (replicate (length qs) (Finite 0))
                = map ((!) xs) [0..<length xs]"
          using fold_update_upt [of "length qs" "replicate (length qs) (Finite 0)" "(!) xs"] that
          by simp
        then show ?thesis by (simp only: map_nth)
      qed
      from fits have H: "fold (\<lambda>i ys. ys[i := H ! i]) [0..<length qs]
                           (replicate (length qs) (Finite 0)) = H"
        and I: "fold (\<lambda>i ys. ys[i := I ! i]) [0..<length qs]
                  (replicate (length qs) (Finite 0)) = I"
        by (simp_all only: all)
      show "fitFlucVec E s nStart nEnd logBase verbose
             = Inr (s\<lparr>self_listH := Some H\<rparr>, Some (H, I),
                    if verbose
                    then FitLimits a b # map (\<lambda>i. FitResult (qs ! i) (I ! i) (H ! i)) [0..<length qs]
                    else [])"
        unfolding code' fit_loop_run [OF each] H I by simp
    next
      assume raised: "k < length qs
             \<and> (\<forall>i<k. polyfit E (log_scales E logBase ns a b)
                          (log_fluctuations E logBase ns (Fm ! i) a b) = Inr (h i, c i))
             \<and> polyfit E (log_scales E logBase ns a b)
                  (log_fluctuations E logBase ns (Fm ! k) a b) = Inl e"
      then have k: "k < length qs" by simp
      from raised have before: "\<forall>i\<in>set [0..<k]. i < length Fm
             \<and> polyfit E (map (\<lambda>k. log_b E logBase (float_of_int k))
                            (py_slice ns (int i0) (int i1 + 1)))
                         (map (log_b E logBase) (py_slice (Fm ! i) (int i0) (int i1 + 1)))
                 = Inr (h i, c i)"
        using xs ys lenF by simp
      from raised have at: "k < length Fm"
          "polyfit E (map (\<lambda>k. log_b E logBase (float_of_int k))
                        (py_slice ns (int i0) (int i1 + 1)))
                     (map (log_b E logBase) (py_slice (Fm ! k) (int i0) (int i1 + 1))) = Inl e"
        using xs ys lenF by simp_all
      have indices: "[0..<length qs] = [0..<k] @ k # [Suc k..<length qs]"
        using k by (metis le0 upt_conv_Cons upt_add_eq_append le_add_diff_inverse less_imp_le_nat)
      have slopes: "fold (\<lambda>i ys. ys[i := h i]) [0..<k] (replicate (length qs) (Finite 0))
                      = map h [0..<k] @ replicate (length qs - k) (Finite 0)"
        using k fold_update_upt [of k "replicate (length qs) (Finite 0)" h] by simp
      show "fitFlucVec E s nStart nEnd logBase verbose
             = Inl (e,
                    s\<lparr>self_listH := Some (map h [0..<k] @ replicate (length qs - k) (Finite 0))\<rparr>,
                    if verbose
                    then FitLimits a b # map (\<lambda>i. FitResult (qs ! i) (c i) (h i)) [0..<k]
                    else [])"
        unfolding code' by (subst indices) (simp add: fit_loop_raise [OF before at] slopes)
    qed
  qed
  from defaults invalid valid show ?thesis by blast
qed

text \<open>
  C9. In a session whose fluctuations have been computed, with scales \<open>ns\<close>, matrix
  \<open>Fm\<close> and q-orders \<open>qs\<close>: a call without \<open>nStart\<close> and \<open>nEnd\<close> is the call with
  the first and the last scale. Let \<open>a\<close> and \<open>b\<close> be the limits in force, an argument
  of -999 counting as left out. Unless \<open>a \<le> b\<close>, both lie between the first and the last
  scale and both are scales, the call fails with a \<^verbatim>\<open>ValueError\<close> and changes
  nothing. Otherwise it calls \<^verbatim>\<open>np.polyfit\<close> at degree 1 once for each q-order, on the
  points \<open>(log s / log logBase, log F_q(s) / log logBase)\<close> for the scales \<open>s\<close> of
  the closed range from \<open>a\<close> to \<open>b\<close>: when every fit returns, the call returns the
  slopes and the intercepts, one for each q-order, and stores the slopes. When the fit
  of q-order \<open>k\<close> raises after the fits before it have returned, the call raises the
  same error and leaves in \<^verbatim>\<open>listH\<close> the \<open>k\<close> slopes found, followed by zeros.
\<close>

theorem C9_fit_over_closed_range:
  assumes "computeFlucVec E s0 nMin qList nMax polOrd nStep revSeg = Inr (s, ns, Fm)"
    and "self_qList s = Some qs"
    and "a = (if nStart = - 999 then hd ns else nStart)"
    and "b = (if nEnd = - 999 then last ns else nEnd)"
  shows "fitFlucVec_call E s None None (Some logBase) (Some verbose)
           = fitFlucVec E s (hd ns) (last ns) (c_float E logBase) verbose
     \<and> (\<not> fit_range_valid ns a b \<longrightarrow>
          (\<exists>m. fitFlucVec E s nStart nEnd logBase verbose = Inl (ValueError m, s, [])))
     \<and> (fit_range_valid ns a b \<longrightarrow>
          (length H = length qs \<and> length I = length qs
             \<and> (\<forall>i<length qs.
                   polyfit E (log_scales E logBase ns a b)
                     (log_fluctuations E logBase ns (Fm ! i) a b) = Inr (H ! i, I ! i)) \<longrightarrow>
           fitFlucVec E s nStart nEnd logBase verbose
             = Inr (s\<lparr>self_listH := Some H\<rparr>, Some (H, I),
                    if verbose
                    then FitLimits a b # map (\<lambda>i. FitResult (qs ! i) (I ! i) (H ! i)) [0..<length qs]
                    else []))
        \<and> (k < length qs
             \<and> (\<forall>i<k. polyfit E (log_scales E logBase ns a b)
                          (log_fluctuations E logBase ns (Fm ! i) a b) = Inr (h i, c i))
             \<and> polyfit E (log_scales E logBase ns a b)
                  (log_fluctuations E logBase ns (Fm ! k) a b) = Inl e \<longrightarrow>
           fitFlucVec E s nStart nEnd logBase verbose
             = Inl (e,
                    s\<lparr>self_listH := Some (map h [0..<k] @ replicate (length qs - k) (Finite 0))\<rparr>,
                    if verbose
                    then FitLimits a b # map (\<lambda>i. FitResult (qs ! i) (c i) (h i)) [0..<k]
                    else [])))"
  using assms by (rule fitFlucVec_after_compute)


text \<open>
  Under \<open>exact\<close>, the least-squares line through two points that lie on the diagonal
  has slope 1 and intercept 0.
\<close>

lemma line_fit_diagonal:
  assumes "a \<noteq> b"
  shows "line_fit [Finite a, Finite b] [Finite a, Finite b] = Inr (Finite 1, Finite 0)"
proof -
  have "(a - b) * (a - b) \<noteq> 0"
    using assms by simp
  moreover have "2 * (a * a + b * b) - (a + b) * (a + b) = (a - b) * (a - b)"
    by (simp add: algebra_simps)
  ultimately have "2 * (a * a + b * b) - (a + b) * (a + b) \<noteq> 0"
    by simp
  then show ?thesis
    by (simp add: line_fit_def Let_def)
qed

theorem C9_witness:
  "fitFlucVec_call exact computed16 None None (Some (Finite 2)) (Some False)
     = fitFlucVec exact computed16 3 4 (Finite 2) False
   \<and> (\<exists>m. fitFlucVec exact computed16 5 4 (Finite 2) False
             = Inl (ValueError m, computed16, []))
   \<and> log_scales exact (Finite 2) [3, 4] 3 4 = [Finite (log 2 3), Finite (log 2 4)]
   \<and> log_fluctuations exact (Finite 2) [3, 4] [Finite 3, Finite 4] 3 4
       = [Finite (log 2 3), Finite (log 2 4)]
   \<and> fitFlucVec exact computed16 3 4 (Finite 2) False
       = Inr (fitted16,
              Some ([Finite 1, Finite 1, Finite 1], [Finite 0, Finite 0, Finite 0]), [])
   \<and> fitFlucVec exact computed16 3 4 (Finite (- 2)) False
       = Inl (LinAlgError,
              computed16\<lparr>self_listH := Some [Finite 0, Finite 0, Finite 0]\<rparr>, [])"
proof -
  have qs: "self_qList computed16 = Some [Finite 0, Finite 1, Finite 3]"
    by (simp add: computed16_def)
  have a: "(3::int) = (if (3::int) = - 999 then hd [3, 4] else 3)"
    and b: "(4::int) = (if (4::int) = - 999 then last [3, 4] else 4)"
    and a': "(5::int) = (if (5::int) = - 999 then hd [3, 4] else 5)"
    by simp_all
  note good = C9_fit_over_closed_range [OF example_compute qs a b,
      of "Finite 2" False "[Finite 1, Finite 1, Finite 1]" "[Finite 0, Finite 0, Finite 0]"]
  note bad = C9_fit_over_closed_range [OF example_compute qs a' b, of "Finite 2" False]
  note raising = C9_fit_over_closed_range [OF example_compute qs a b,
      where logBase = "Finite (- 2)" and verbose = False and k = 0 and e = LinAlgError]
  have valid: "fit_range_valid [3, 4] 3 4" and invalid: "\<not> fit_range_valid [3, 4] 5 4"
    by (simp_all add: fit_range_valid_def)
  have x: "log_scales exact (Finite 2) [3, 4] 3 4 = [Finite (log 2 3), Finite (log 2 4)]"
    by (simp add: log_scales_def log_in_base_exact)
  have y: "log_fluctuations exact (Finite 2) [3, 4] [Finite 3, Finite 4] 3 4
             = [Finite (log 2 3), Finite (log 2 4)]"
    by (simp add: log_fluctuations_def log_in_base_exact)
  have "log 2 3 < (log 2 4 :: real)"
    by simp
  then have "log 2 3 \<noteq> (log 2 4 :: real)"
    by (rule less_imp_neq)
  then have fit: "polyfit exact [Finite (log 2 3), Finite (log 2 4)]
                    [Finite (log 2 3), Finite (log 2 4)] = Inr (Finite 1, Finite 0)"
    by (simp add: exact_def line_fit_diagonal)
  have each: "\<forall>i<length [Finite 0, Finite 1, Finite 3 :: float64].
                polyfit exact (log_scales exact (Finite 2) [3, 4] 3 4)
                  (log_fluctuations exact (Finite 2) [3, 4]
                     ([[Finite 3, Finite 4], [Finite 3, Finite 4], [Finite 3, Finite 4]] ! i) 3 4)
                = Inr ([Finite 1, Finite 1, Finite 1] ! i, [Finite 0, Finite 0, Finite 0] ! i)"
    using fit by (simp add: x y less_Suc_eq numeral_3_eq_3)
  have nan: "log_scales exact (Finite (- 2)) [3, 4] 3 4 = [NaN, NaN]"
    by (simp add: log_scales_def log_in_base_def exact_def)
  have no_fit: "polyfit exact [NaN, NaN] ys = Inl LinAlgError" for ys
    by (simp add: exact_def line_fit_def)
  have raises: "polyfit exact (log_scales exact (Finite (- 2)) [3, 4] 3 4)
                  (log_fluctuations exact (Finite (- 2)) [3, 4]
                     ([[Finite 3, Finite 4], [Finite 3, Finite 4], [Finite 3, Finite 4]] ! 0) 3 4)
                = Inl LinAlgError"
    by (simp add: nan no_fit)
  from good valid each
  have "fitFlucVec exact computed16 3 4 (Finite 2) False
       = Inr (computed16\<lparr>self_listH := Some [Finite 1, Finite 1, Finite 1]\<rparr>,
              Some ([Finite 1, Finite 1, Finite 1], [Finite 0, Finite 0, Finite 0]), [])"
    by simp
  then have fitted: "fitFlucVec exact computed16 3 4 (Finite 2) False
       = Inr (fitted16,
              Some ([Finite 1, Finite 1, Finite 1], [Finite 0, Finite 0, Finite 0]), [])"
    by (simp add: fitted16_def)
  from bad invalid
  have rejected: "\<exists>m. fitFlucVec exact computed16 5 4 (Finite 2) False
                        = Inl (ValueError m, computed16, [])"
    by simp
  from good
  have default: "fitFlucVec_call exact computed16 None None (Some (Finite 2)) (Some False)
          = fitFlucVec exact computed16 3 4 (Finite 2) False"
    by (simp add: exact_def)
  from raising valid raises
  have failed: "fitFlucVec exact computed16 3 4 (Finite (- 2)) False
       = Inl (LinAlgError,
              computed16\<lparr>self_listH := Some [Finite 0, Finite 0, Finite 0]\<rparr>, [])"
    by (simp add: numeral_3_eq_3)
  from default rejected x y fitted failed show ?thesis
    by blast
qed

section \<open>The guards on the computed flag and on the slopes\<close>

lemma example_raising_polyfit:
  "polyfit exact (log_scales exact (Finite (- 2)) [3, 4] 3 4)
     (log_fluctuations exact (Finite (- 2)) [3, 4]
        ([[Finite 3, Finite 4], [Finite 3, Finite 4], [Finite 3, Finite 4]] ! 0) 3 4)
     = Inl LinAlgError"
proof -
  have "log_scales exact (Finite (- 2)) [3, 4] 3 4 = [NaN, NaN]"
    by (simp add: log_scales_def log_in_base_def exact_def)
  moreover have "polyfit exact [NaN, NaN] ys = Inl LinAlgError" for ys
    by (simp add: exact_def line_fit_def)
  ultimately show ?thesis by simp
qed

text \<open>
  C1, as the code has it. While no fluctuation matrix has been computed
  (\<^verbatim>\<open>isComputed\<close> is false), \<^verbatim>\<open>fitFlucVec\<close>, \<^verbatim>\<open>computeMassExponents\<close> and
  \<^verbatim>\<open>computeMultifractalSpectrum\<close> raise nothing: each prints the notice of its last
  line and returns \<^verbatim>\<open>None\<close>, and the state is unchanged. Once the matrix has been
  computed, \<^verbatim>\<open>computeMassExponents\<close> and \<^verbatim>\<open>computeMultifractalSpectrum\<close> fail with
  an error for as long as \<^verbatim>\<open>listH\<close> has not been assigned. A call of
  \<^verbatim>\<open>fitFlucVec\<close> that raises leaves the session unchanged, or leaves it with
  \<^verbatim>\<open>listH\<close> assigned an array with one entry for each q-order (line 183 comes
  before the fits that can raise). The latter happens on a session that
  \<^verbatim>\<open>computeFlucVec\<close> has returned, with limits that are accepted, when
  \<^verbatim>\<open>np.polyfit\<close> raises for the q-order of index \<open>k\<close> after it has returned for
  those before it: \<^verbatim>\<open>listH\<close> is left with the \<open>k\<close> slopes found, followed by zeros.
  From then on \<^verbatim>\<open>computeMassExponents\<close> returns \<open>listH[i] * q[i] - 1\<close> with no
  error, although no fit has been completed.
\<close>

theorem C1_guards_on_isComputed_and_listH:
  assumes "a = (if nStart = - 999 then hd ns else nStart)"
    and "b = (if nEnd = - 999 then last ns else nEnd)"
    and "L = map h [0..<k] @ replicate (length qs - k) (Finite 0)"
  shows
  "(\<not> self_isComputed s \<longrightarrow>
       fitFlucVec E s nStart nEnd logBase verbose = Inr (s, None, [NothingToFit])
     \<and> computeMassExponents E s = Inr (None, [NothingToFit])
     \<and> computeMultifractalSpectrum E s = Inr (None, [NothingToFit]))
   \<and> (self_isComputed s \<and> self_listH s = None \<longrightarrow>
       computeMassExponents E s = Inl TypeError
     \<and> (\<exists>e. computeMultifractalSpectrum E s = Inl e))
   \<and> (fitFlucVec E s nStart nEnd logBase verbose = Inl (e, s', out) \<longrightarrow>
       s' = s
     \<or> (\<exists>qs H. self_qList s = Some qs \<and> length H = length qs
           \<and> s' = s\<lparr>self_listH := Some H\<rparr>
           \<and> computeMassExponents E s'
               = Inr (Some (map2 (\<lambda>h q. fsub E (fmul E h q) (Finite 1)) H qs), [])))
   \<and> (computeFlucVec E s0 nMin qList nMax polOrd nStep revSeg = Inr (s, ns, Fm)
        \<and> self_qList s = Some qs \<and> fit_range_valid ns a b \<and> k < length qs
        \<and> (\<forall>i<k. polyfit E (log_scales E logBase ns a b)
                     (log_fluctuations E logBase ns (Fm ! i) a b) = Inr (h i, c i))
        \<and> polyfit E (log_scales E logBase ns a b)
             (log_fluctuations E logBase ns (Fm ! k) a b) = Inl e \<longrightarrow>
       (\<exists>out. fitFlucVec E s nStart nEnd logBase verbose
                 = Inl (e, s\<lparr>self_listH := Some L\<rparr>, out))
     \<and> computeMassExponents E (s\<lparr>self_listH := Some L\<rparr>)
         = Inr (Some (map2 (\<lambda>h q. fsub E (fmul E h q) (Finite 1)) L qs), []))"
proof (intro conjI impI)
  assume "\<not> self_isComputed s"
  then show "fitFlucVec E s nStart nEnd logBase verbose = Inr (s, None, [NothingToFit])"
    by (simp add: fitFlucVec_def)
next
  assume "\<not> self_isComputed s"
  then show "computeMassExponents E s = Inr (None, [NothingToFit])"
    by (simp add: computeMassExponents_def)
next
  assume "\<not> self_isComputed s"
  then show "computeMultifractalSpectrum E s = Inr (None, [NothingToFit])"
    by (simp add: computeMultifractalSpectrum_def)
next
  assume unassigned: "self_isComputed s \<and> self_listH s = None"
  then show mass: "computeMassExponents E s = Inl TypeError"
    by (simp add: computeMassExponents_def np_binop_def)
  from unassigned mass show "\<exists>e. computeMultifractalSpectrum E s = Inl e"
    by (simp add: computeMultifractalSpectrum_def split: option.split)
next
  assume raised: "fitFlucVec E s nStart nEnd logBase verbose = Inl (e, s', out)"
  from fitFlucVec_error_state [OF raised]
  show "s' = s
     \<or> (\<exists>qs H. self_qList s = Some qs \<and> length H = length qs
           \<and> s' = s\<lparr>self_listH := Some H\<rparr>
           \<and> computeMassExponents E s'
               = Inr (Some (map2 (\<lambda>h q. fsub E (fmul E h q) (Finite 1)) H qs), []))"
  proof
    assume "s' = s"
    then show ?thesis ..
  next
    assume "\<exists>qs H. self_isComputed s \<and> self_qList s = Some qs \<and> length H = length qs
               \<and> s' = s\<lparr>self_listH := Some H\<rparr>"
    then obtain qs H where st: "self_isComputed s" "self_qList s = Some qs"
        "length H = length qs" and s': "s' = s\<lparr>self_listH := Some H\<rparr>"
      by blast
    from computeMassExponents_assigned [OF st, of E] s' st show ?thesis
      by blast
  qed
next
  assume in_loop: "computeFlucVec E s0 nMin qList nMax polOrd nStep revSeg = Inr (s, ns, Fm)
        \<and> self_qList s = Some qs \<and> fit_range_valid ns a b \<and> k < length qs
        \<and> (\<forall>i<k. polyfit E (log_scales E logBase ns a b)
                     (log_fluctuations E logBase ns (Fm ! i) a b) = Inr (h i, c i))
        \<and> polyfit E (log_scales E logBase ns a b)
             (log_fluctuations E logBase ns (Fm ! k) a b) = Inl e"
  then have run: "computeFlucVec E s0 nMin qList nMax polOrd nStep revSeg = Inr (s, ns, Fm)"
    and qs: "self_qList s = Some qs" and k: "k < length qs"
    by simp_all
  from fitFlucVec_after_compute [OF run qs assms(1,2), of logBase verbose _ _ k h c e] in_loop
  show "\<exists>out. fitFlucVec E s nStart nEnd logBase verbose
                 = Inl (e, s\<lparr>self_listH := Some L\<rparr>, out)"
    unfolding assms(3) by blast
  from computeFlucVec_Inr(3) [OF run refl refl] have computed: "self_isComputed s"
    by auto
  have "length L = length qs"
    using k by (simp add: assms(3))
  from computeMassExponents_assigned [OF computed qs this]
  show "computeMassExponents E (s\<lparr>self_listH := Some L\<rparr>)
         = Inr (Some (map2 (\<lambda>h q. fsub E (fmul E h q) (Finite 1)) L qs), [])" .
qed

theorem C1_witness:
  "fitFlucVec exact fresh16 (- 999) (- 999) (Finite (exp 1)) False
     = Inr (fresh16, None, [NothingToFit])
   \<and> computeMassExponents exact fresh16 = Inr (None, [NothingToFit])
   \<and> computeMultifractalSpectrum exact fresh16 = Inr (None, [NothingToFit])
   \<and> computeMassExponents exact computed16 = Inl TypeError
   \<and> computeMultifractalSpectrum exact computed16 = Inl TypeError
   \<and> fitFlucVec exact computed16 3 4 (Finite (- 2)) False
       = Inl (LinAlgError,
              computed16\<lparr>self_listH := Some [Finite 0, Finite 0, Finite 0]\<rparr>, [])
   \<and> computeMassExponents exact
         (computed16\<lparr>self_listH := Some [Finite 0, Finite 0, Finite 0]\<rparr>)
       = Inr (Some [Finite (- 1), Finite (- 1), Finite (- 1)], [])"
proof -
  have a: "(3::int) = (if (3::int) = - 999 then hd [3, 4] else 3)"
    and b: "(4::int) = (if (4::int) = - 999 then last [3, 4] else 4)"
    and zeros: "[Finite 0, Finite 0, Finite 0]
                  = map (\<lambda>i. Finite 0) [0..<0]
                      @ replicate (length [Finite 0, Finite 1, Finite 3 :: float64] - 0) (Finite 0)"
    by (simp_all add: numeral_3_eq_3)
  note fresh = C1_guards_on_isComputed_and_listH
    [OF a b zeros, where s = fresh16 and E = exact and logBase = "Finite (exp 1)"
       and verbose = False]
  note computed = C1_guards_on_isComputed_and_listH
    [OF a b zeros, where s = computed16 and E = exact and logBase = "Finite (- 2)"
       and verbose = False and e = LinAlgError and c = "\<lambda>i. Finite 0"
       and s0 = fresh16 and nMin = 3 and qList = "QList [Finite 0, Finite 1, Finite 3]"
       and nMax = "- 999" and polOrd = 1 and nStep = 1 and revSeg = False
       and Fm = "[[Finite 3, Finite 4], [Finite 3, Finite 4], [Finite 3, Finite 4]]"]
  have not_computed: "\<not> self_isComputed fresh16"
    and unassigned: "self_isComputed computed16 \<and> self_listH computed16 = None"
    and orders: "self_qList computed16 = Some [Finite 0, Finite 1, Finite 3]"
    by (simp_all add: fresh16_def computed16_def)
  have valid: "fit_range_valid [3, 4] 3 4"
    by (simp add: fit_range_valid_def)
  have early: "fitFlucVec exact fresh16 (- 999) (- 999) (Finite (exp 1)) False
             = Inr (fresh16, None, [NothingToFit])"
    by (simp add: fitFlucVec_def not_computed)
  from fresh not_computed
  have first: "computeMassExponents exact fresh16 = Inr (None, [NothingToFit])
           \<and> computeMultifractalSpectrum exact fresh16 = Inr (None, [NothingToFit])"
    by blast
  from computed unassigned
  have second: "computeMassExponents exact computed16 = Inl TypeError"
    by blast
  then have third: "computeMultifractalSpectrum exact computed16 = Inl TypeError"
    by (simp add: computeMultifractalSpectrum_def computed16_def)
  from computed example_compute orders valid example_raising_polyfit
  have "computeMassExponents exact
          (computed16\<lparr>self_listH := Some [Finite 0, Finite 0, Finite 0]\<rparr>)
        = Inr (Some (map2 (\<lambda>h q. fsub exact (fmul exact h q) (Finite 1))
                       [Finite 0, Finite 0, Finite 0] [Finite 0, Finite 1, Finite 3]), [])"
    by simp
  then have fourth: "computeMassExponents exact
         (computed16\<lparr>self_listH := Some [Finite 0, Finite 0, Finite 0]\<rparr>)
       = Inr (Some [Finite (- 1), Finite (- 1), Finite (- 1)], [])"
    by (simp add: exact_def)
  from early first second third fourth example_failed_fit show ?thesis
    by blast
qed

text \<open>
  C1 as it is stated fails in two states. On a session that has just been constructed
  the three operations return, where the claim has them fail with an error. And on a
  session whose fluctuations have been computed and whose only call of
  \<^verbatim>\<open>fitFlucVec\<close> has raised inside \<^verbatim>\<open>np.polyfit\<close>, no fit has been performed, yet
  \<^verbatim>\<open>computeMassExponents\<close> returns -1 for each q-order.
\<close>

theorem C1_counterexample:
  "MFDFA_init series16 = Inr fresh16
   \<and> fitFlucVec exact fresh16 (- 999) (- 999) (Finite (exp 1)) False
       = Inr (fresh16, None, [NothingToFit])
   \<and> computeMassExponents exact fresh16 = Inr (None, [NothingToFit])
   \<and> computeMultifractalSpectrum exact fresh16 = Inr (None, [NothingToFit])
   \<and> computeFlucVec exact fresh16 3 (QList [Finite 0, Finite 1, Finite 3]) (- 999) 1 1 False
       = Inr (computed16, [3, 4],
              [[Finite 3, Finite 4], [Finite 3, Finite 4], [Finite 3, Finite 4]])
   \<and> fitFlucVec exact computed16 3 4 (Finite (- 2)) False
       = Inl (LinAlgError,
              computed16\<lparr>self_listH := Some [Finite 0, Finite 0, Finite 0]\<rparr>, [])
   \<and> computeMassExponents exact
         (computed16\<lparr>self_listH := Some [Finite 0, Finite 0, Finite 0]\<rparr>)
       = Inr (Some [Finite (- 1), Finite (- 1), Finite (- 1)], [])"
proof -
  have "computeMassExponents exact
         (computed16\<lparr>self_listH := Some [Finite 0, Finite 0, Finite 0]\<rparr>)
       = Inr (Some [Finite (- 1), Finite (- 1), Finite (- 1)], [])"
    by (simp add: computeMassExponents_def computed16_def np_binop_def np_broadcast_def
          exact_def)
  moreover have "fitFlucVec exact fresh16 (- 999) (- 999) (Finite (exp 1)) False
       = Inr (fresh16, None, [NothingToFit])
   \<and> computeMassExponents exact fresh16 = Inr (None, [NothingToFit])
   \<and> computeMultifractalSpectrum exact fresh16 = Inr (None, [NothingToFit])"
    by (simp add: fresh16_def fitFlucVec_def computeMassExponents_def
          computeMultifractalSpectrum_def)
  ultimately show ?thesis
    using example_init example_compute example_failed_fit by blast
qed

end
